theory Spec2Isabelle
  imports Main
begin

section \<open>Payment orchestration and reconciliation (payments.service.ts)\<close>

text \<open>
  A shallow embedding of \<open>PaymentsService\<close>. The persistent store and the call
  log of the collaborators form an explicit state; every \<open>throw\<close> is a value of
  a sum type; the external collaborators (gateway adapter, antifraud service,
  notification service, HMAC primitive, configuration variables) are the fields
  of an environment record.
\<close>

subsection \<open>Characters outside ASCII used by the messages\<close>

definition a_acute :: char where "a_acute = CHR 0xE1"
definition a_tilde :: char where "a_tilde = CHR 0xE3"
definition c_cedil :: char where "c_cedil = CHR 0xE7"
definition e_acute :: char where "e_acute = CHR 0xE9"
definition o_tilde :: char where "o_tilde = CHR 0xF5"

subsection \<open>Exceptions\<close>

datatype exn =
    NotFoundException
  | BadRequestException
  | UnauthorizedException
  | InternalServerErrorException
  | TypeError
  | PrismaClientError
  | ExternalError

text \<open>An error value is the exception class together with its message.\<close>

type_synonym error = "exn \<times> string"

subsection \<open>Data model\<close>

datatype OrderStatus = PENDING | PAID | CANCELLED | SHIPPED | DELIVERED

text \<open>Prisma enums are strings at run time; this is the string of each member.\<close>

fun orderStatusName :: "OrderStatus \<Rightarrow> string" where
  "orderStatusName PENDING = ''PENDING''"
| "orderStatusName PAID = ''PAID''"
| "orderStatusName CANCELLED = ''CANCELLED''"
| "orderStatusName SHIPPED = ''SHIPPED''"
| "orderStatusName DELIVERED = ''DELIVERED''"

datatype TransactionType = PAYMENT

text \<open>\<open>Prisma.Decimal\<close> amounts, kept as integers of the minor unit.\<close>

type_synonym decimal = int

record User =
  user_email :: "string option"
  user_name :: "string option"
  user_phone :: "string option"
  user_cpf :: "string option"

record Item =
  item_productId :: string
  item_productName :: string
  item_productPrice :: decimal
  item_quantity :: int
  item_price :: decimal

record Order =
  order_id :: string
  order_status :: OrderStatus
  order_userId :: "string option"
  order_guestId :: "string option"
  order_guestEmail :: "string option"
  order_guestPhone :: "string option"
  order_guestCpf :: "string option"
  order_totalAmount :: decimal
  order_shippingService :: "string option"
  order_shippingPrice :: "decimal option"
  order_shippingAddressZipCode :: string
  order_shippingAddressStreet :: string
  order_shippingAddressNumber :: string
  order_shippingAddressComplement :: "string option"
  order_shippingAddressNeighborhood :: string
  order_shippingAddressCity :: string
  order_shippingAddressState :: string
  order_items :: "Item list"
  order_user :: "User option"

record Transaction =
  tx_id :: string
  tx_userId :: "string option"
  tx_orderId :: "string option"
  tx_amount :: decimal
  tx_type :: TransactionType
  tx_status :: string
  tx_description :: "string option"
  tx_gatewayTransactionId :: "string option"
  tx_transactionRef :: "string option"
  tx_qrCodeUrl :: "string option"
  tx_antifraudStatus :: "string option"
  tx_updatedAt :: string

text \<open>
  JavaScript truthiness of a possibly absent string: \<open>undefined\<close>, \<open>null\<close> and
  the empty string are falsy.
\<close>

fun truthy :: "string option \<Rightarrow> bool" where
  "truthy None = False"
| "truthy (Some s) = (s \<noteq> [])"

text \<open>\<open>a || b\<close> and \<open>a ?? b\<close> on possibly absent strings.\<close>

definition or_else :: "string option \<Rightarrow> string option \<Rightarrow> string option" where
  "or_else a b = (if truthy a then a else b)"

fun nullish :: "'a option \<Rightarrow> 'a option \<Rightarrow> 'a option" where
  "nullish None b = b"
| "nullish (Some a) b = Some a"

fun nullish_default :: "'a option \<Rightarrow> 'a \<Rightarrow> 'a" where
  "nullish_default None d = d"
| "nullish_default (Some a) d = a"

subsection \<open>Status vocabularies\<close>

fun mapPagSeguroStatusToOrderStatus :: "string \<Rightarrow> OrderStatus" where
  "mapPagSeguroStatusToOrderStatus pagSeguroStatus =
     (if pagSeguroStatus = ''PAID'' then PAID
      else if pagSeguroStatus = ''APPROVED'' then PAID
      else if pagSeguroStatus = ''IN_ANALYSIS'' then PENDING
      else if pagSeguroStatus = ''PENDING'' then PENDING
      else if pagSeguroStatus = ''CANCELED'' then CANCELLED
      else if pagSeguroStatus = ''ABORTED'' then CANCELLED
      else if pagSeguroStatus = ''REFUNDED'' then SHIPPED
      else if pagSeguroStatus = ''SHIPPED'' then SHIPPED
      else if pagSeguroStatus = ''DELIVERED'' then DELIVERED
      else PENDING)"

text \<open>
  The literal table of the specification, as an association list, and the
  lookup it describes: a listed value maps to its entry, any other to PENDING.
\<close>

definition spec_status_table :: "(string \<times> OrderStatus) list" where
  "spec_status_table =
     [(''PAID'', PAID), (''APPROVED'', PAID),
      (''IN_ANALYSIS'', PENDING), (''PENDING'', PENDING),
      (''CANCELED'', CANCELLED), (''ABORTED'', CANCELLED),
      (''REFUNDED'', SHIPPED), (''SHIPPED'', SHIPPED),
      (''DELIVERED'', DELIVERED)]"

definition spec_status_lookup :: "string \<Rightarrow> OrderStatus" where
  "spec_status_lookup s =
     (case map_of spec_status_table s of Some st \<Rightarrow> st | None \<Rightarrow> PENDING)"

datatype PixStatus = PIX_PENDING | PIX_COMPLETED | PIX_CANCELED | PIX_EXPIRED | PIX_FAILED

fun mapPixStatus :: "string option \<Rightarrow> PixStatus" where
  "mapPixStatus externalStatus =
     (if externalStatus = Some ''PAID'' then PIX_COMPLETED
      else if externalStatus = Some ''CONFIRMED'' then PIX_COMPLETED
      else if externalStatus = Some ''COMPLETED'' then PIX_COMPLETED
      else if externalStatus = Some ''CANCELED'' then PIX_CANCELED
      else if externalStatus = Some ''EXPIRED'' then PIX_EXPIRED
      else if externalStatus = Some ''FAILED'' then PIX_FAILED
      else PIX_PENDING)"

subsection \<open>Shapes exchanged with the collaborators\<close>

record Customer =
  cust_email :: string
  cust_fullName :: string
  cust_phone :: "string option"
  cust_cpf :: "string option"

record ShippingAddress =
  addr_cep :: string
  addr_street :: string
  addr_number :: string
  addr_complement :: "string option"
  addr_neighborhood :: string
  addr_city :: string
  addr_state :: string

record PayloadItem =
  pi_name :: string
  pi_quantity :: int
  pi_unit_amount :: decimal

record CardDetails =
  card_token :: string
  card_holderName :: string
  card_cpf :: string
  card_installments :: "int option"

record GatewayPayload =
  gp_orderId :: string
  gp_amount :: decimal
  gp_description :: string
  gp_customer :: Customer
  gp_shippingAddress :: ShippingAddress
  gp_shippingService :: "string option"
  gp_shippingPrice :: "decimal option"
  gp_items :: "PayloadItem list"
  gp_cardDetails :: "CardDetails option"

record ProcessPaymentDto =
  cardToken :: "string option"
  cardHolderName :: "string option"
  cardCpf :: "string option"
  cardInstallments :: "int option"
  cardBrand :: "string option"

record AntifraudItem =
  afi_productId :: string
  afi_quantity :: int
  afi_price :: decimal

record AntifraudInput =
  af_orderId :: string
  af_amount :: decimal
  af_customerEmail :: string
  af_customerCpf :: "string option"
  af_paymentMethod :: string
  af_items :: "AntifraudItem list"
  af_cardDetails :: "(string option \<times> int option) option"

record PixChargeResponseDto =
  pix_transactionId :: string
  pix_status :: PixStatus
  pix_brCode :: string
  pix_qrCodeImage :: string
  pix_expiresAt :: string
  pix_amount :: decimal
  pix_description :: string
  pix_orderId :: string

text \<open>What the gateway answers to a direct card charge.\<close>

record CardGatewayResponse =
  cg_transactionId :: string
  cg_status :: string
  cg_transactionRef :: "string option"

text \<open>
  What \<open>processCreditCardPayment\<close> returns (\<open>any\<close> in the source): the gateway
  answer for a new payment, the rebuilt object (which has three more fields)
  for an existing one.
\<close>

record CardPaymentResult =
  cp_transactionId :: string
  cp_status :: string
  cp_transactionRef :: "string option"
  cp_amount :: "decimal option"
  cp_description :: "string option"
  cp_orderId :: "string option"

record RedirectGatewayResponse =
  rg_pagSeguroCheckoutId :: string
  rg_redirectUrl :: string

record RedirectResult =
  redirectUrl :: string
  pagSeguroCheckoutId :: "string option"

record Link =
  link_rel :: string
  link_href :: "string option"

record Charge =
  charge_id :: "string option"
  charge_status :: "string option"

record Checkout =
  co_id :: "string option"
  co_status :: "string option"
  co_charges :: "Charge list option"
  co_links :: "Link list option"

record QrCode =
  qr_status :: "string option"
  qr_text :: "string option"
  qr_links :: "Link list option"
  qr_expiration_date :: "string option"

record PixOrderDetails =
  od_qr_codes :: "QrCode list option"

subsection \<open>Collaborators\<close>

text \<open>
  The behaviour of everything outside \<open>PaymentsService\<close> during one call: the
  configuration variables read by \<open>ConfigService\<close>, Node's HMAC-SHA256 with hex
  digest, the answers (or failures) of the antifraud service, of the gateway
  adapter and of the notification service, failures of the orders service and
  of the store, and the identifier and time stamp the store gives a new row.
\<close>

record env =
  nestConfig :: "string \<Rightarrow> string option"
  hmacSha256Hex :: "string \<Rightarrow> string \<Rightarrow> string"
  ordersServiceError :: "string \<Rightarrow> error option"
  antifraud_analyzeTransaction :: "AntifraudInput \<Rightarrow> error + string"
  pagSeguro_createPagSeguroPixCharge :: "GatewayPayload \<Rightarrow> string \<Rightarrow> error + PixChargeResponseDto"
  pagSeguro_processDirectCreditCardPayment :: "GatewayPayload \<Rightarrow> string \<Rightarrow> error + CardGatewayResponse"
  pagSeguro_createPagSeguroCheckoutRedirect :: "GatewayPayload \<Rightarrow> string \<Rightarrow> error + RedirectGatewayResponse"
  pagSeguro_getCheckoutDetails :: "string \<Rightarrow> error + Checkout"
  pagSeguro_getOrderDetails :: "string \<Rightarrow> error + PixOrderDetails"
  notifications_sendPaymentConfirmationEmail :: "string \<Rightarrow> string \<Rightarrow> decimal \<Rightarrow> error option"
  notifications_sendPaymentCancellationEmail :: "string \<Rightarrow> string \<Rightarrow> error option"
  prismaReadError :: "error option"
  transactionCreateError :: "error option"
  transactionUpdateError :: "error option"
  orderUpdateError :: "error option"
  newTransactionId :: string
  now :: string

subsection \<open>State and effects\<close>

datatype level = LOG | WARN | ERROR

text \<open>One entry per call that leaves the service, in the order of the calls.\<close>

datatype event =
    Logged level
  | ConsoleWarn
  | OrdersFindOneById string
  | TransactionFindUnique string
  | TransactionFindFirst string
  | AntifraudAnalyze string string
  | GatewayCreatePixCharge string
  | GatewayDirectCreditCard string
  | GatewayCreateCheckoutRedirect string
  | GatewayGetCheckoutDetails string
  | GatewayGetOrderDetails string
  | TransactionCreate string
  | TransactionUpdate string string
  | OrderUpdate string OrderStatus
  | SendPaymentConfirmationEmail string string
  | SendPaymentCancellationEmail string string

record world =
  orders :: "Order list"
  transactions :: "Transaction list"
  trace :: "event list"

text \<open>
  An asynchronous method is a function from the state to its outcome (the
  thrown error or the returned value) and the state it leaves. Effects made
  before a \<open>throw\<close> stay.
\<close>

type_synonym 'a io = "world \<Rightarrow> (error + 'a) \<times> world"

definition io_return :: "'a \<Rightarrow> 'a io" where
  "io_return x w = (Inr x, w)"

definition io_throw :: "error \<Rightarrow> 'a io" where
  "io_throw e w = (Inl e, w)"

definition io_bind :: "'a io \<Rightarrow> ('a \<Rightarrow> 'b io) \<Rightarrow> 'b io" where
  "io_bind m f w = (case m w of (Inl e, w') \<Rightarrow> (Inl e, w') | (Inr x, w') \<Rightarrow> f x w')"

definition io_catch :: "'a io \<Rightarrow> (error \<Rightarrow> 'a io) \<Rightarrow> 'a io" where
  "io_catch m h w = (case m w of (Inl e, w') \<Rightarrow> h e w' | (Inr x, w') \<Rightarrow> (Inr x, w'))"

definition emit :: "event \<Rightarrow> unit io" where
  "emit ev w = (Inr (), w\<lparr>trace := trace w @ [ev]\<rparr>)"

text \<open>A call to a collaborator: it is recorded, then it answers or throws.\<close>

definition call :: "event \<Rightarrow> error + 'a \<Rightarrow> 'a io" where
  "call ev r w = (r, w\<lparr>trace := trace w @ [ev]\<rparr>)"

definition failing :: "error option \<Rightarrow> error + unit" where
  "failing e = (case e of None \<Rightarrow> Inr () | Some x \<Rightarrow> Inl x)"

definition logger :: "level \<Rightarrow> unit io" where
  "logger l = emit (Logged l)"

subsection \<open>ConfigService\<close>

text \<open>\<open>get('BACKEND_URL') || ''\<close>\<close>

definition backendUrl :: "env \<Rightarrow> string" where
  "backendUrl E = (case nestConfig E ''BACKEND_URL'' of None \<Rightarrow> [] | Some s \<Rightarrow> s)"

definition msg_webhook_secret_missing :: string where
  "msg_webhook_secret_missing =
     ''A vari'' @ [a_acute] @ ''vel de ambiente PAGSEGURO_WEBHOOK_SECRET '' @ [e_acute]
     @ '' obrigat'' @ [CHR 0xF3] @ ''ria para garantir a validade das notifica''
     @ [c_cedil, o_tilde] @ ''es.''"

definition pagSeguroWebhookSecret :: "env \<Rightarrow> string io" where
  "pagSeguroWebhookSecret E =
     (let secret = nestConfig E ''PAGSEGURO_WEBHOOK_SECRET'' in
      case secret of
        None \<Rightarrow> io_bind (emit ConsoleWarn)
                  (\<lambda>_. io_throw (InternalServerErrorException, msg_webhook_secret_missing))
      | Some s \<Rightarrow>
          if s = [] then io_bind (emit ConsoleWarn)
                  (\<lambda>_. io_throw (InternalServerErrorException, msg_webhook_secret_missing))
          else io_return s)"

subsection \<open>The store (Prisma) and the orders service\<close>

text \<open>
  Modelled from the spec: \<open>OrdersService.findOneById\<close> (src/orders/orders.service.ts
  is not among the sources) loads the order by id, with its owner and items; an
  absent order is \<open>null\<close>, which the callers turn into NotFound. The service
  may also fail, as \<open>ordersServiceError\<close> says.
\<close>

definition findOneById :: "env \<Rightarrow> string \<Rightarrow> Order option io" where
  "findOneById E orderId w =
     call (OrdersFindOneById orderId)
       (case ordersServiceError E orderId of
          Some e \<Rightarrow> Inl e
        | None \<Rightarrow> Inr (find (\<lambda>ord. order_id ord = orderId) (orders w))) w"

text \<open>\<open>prisma.transaction.findUnique({ where: { orderId } })\<close>\<close>

definition transaction_findUnique :: "env \<Rightarrow> string \<Rightarrow> Transaction option io" where
  "transaction_findUnique E orderId w =
     call (TransactionFindUnique orderId)
       (case prismaReadError E of
          Some e \<Rightarrow> Inl e
        | None \<Rightarrow> Inr (find (\<lambda>t. tx_orderId t = Some orderId) (transactions w))) w"

text \<open>
  \<open>prisma.transaction.findFirst({ where: { gatewayTransactionId }, include: { order: true } })\<close>:
  the first row with that gateway id, joined with the order its \<open>orderId\<close> names.
\<close>

definition order_of :: "world \<Rightarrow> Transaction \<Rightarrow> Order option" where
  "order_of w t =
     (case tx_orderId t of
        None \<Rightarrow> None
      | Some oid \<Rightarrow> find (\<lambda>ord. order_id ord = oid) (orders w))"

definition transaction_findFirst :: "env \<Rightarrow> string \<Rightarrow> (Transaction \<times> Order option) option io" where
  "transaction_findFirst E gatewayId w =
     call (TransactionFindFirst gatewayId)
       (case prismaReadError E of
          Some e \<Rightarrow> Inl e
        | None \<Rightarrow>
            Inr (map_option (\<lambda>t. (t, order_of w t))
                   (find (\<lambda>t. tx_gatewayTransactionId t = Some gatewayId) (transactions w)))) w"

text \<open>
  \<open>prisma.transaction.create\<close>: \<open>orderId\<close> is a unique column (it is the key of
  \<open>findUnique\<close>), so a second row for the same order is refused; otherwise the
  row is added with the identifier and time stamp the store assigns.
\<close>

definition transaction_create :: "env \<Rightarrow> Transaction \<Rightarrow> unit io" where
  "transaction_create E row w =
     (case transactionCreateError E of
        Some e \<Rightarrow> call (TransactionCreate (nullish_default (tx_orderId row) [])) (Inl e) w
      | None \<Rightarrow>
          if find (\<lambda>t. tx_orderId t \<noteq> None \<and> tx_orderId t = tx_orderId row) (transactions w) \<noteq> None
          then call (TransactionCreate (nullish_default (tx_orderId row) []))
                 (Inl (PrismaClientError, ''P2002'')) w
          else call (TransactionCreate (nullish_default (tx_orderId row) [])) (Inr ())
                 (w\<lparr>transactions := transactions w
                      @ [row\<lparr>tx_id := newTransactionId E, tx_updatedAt := now E\<rparr>]\<rparr>))"

definition set_order_status :: "string \<Rightarrow> OrderStatus \<Rightarrow> Order \<Rightarrow> Order" where
  "set_order_status oid st ord = (if order_id ord = oid then ord\<lparr>order_status := st\<rparr> else ord)"

definition set_tx_status :: "env \<Rightarrow> string \<Rightarrow> string \<Rightarrow> Transaction \<Rightarrow> Transaction" where
  "set_tx_status E tid st t =
     (if tx_id t = tid then t\<lparr>tx_status := st, tx_updatedAt := now E\<rparr> else t)"

text \<open>\<open>prisma.order.update({ where: { id }, data: { status } })\<close>\<close>

definition order_update :: "env \<Rightarrow> string \<Rightarrow> OrderStatus \<Rightarrow> unit io" where
  "order_update E oid st w =
     (case orderUpdateError E of
        Some e \<Rightarrow> call (OrderUpdate oid st) (Inl e) w
      | None \<Rightarrow>
          if find (\<lambda>ord. order_id ord = oid) (orders w) = None
          then call (OrderUpdate oid st) (Inl (PrismaClientError, ''P2025'')) w
          else call (OrderUpdate oid st) (Inr ())
                 (w\<lparr>orders := map (set_order_status oid st) (orders w)\<rparr>))"

text \<open>\<open>prisma.transaction.update({ where: { id }, data: { status } })\<close>\<close>

definition transaction_update :: "env \<Rightarrow> string \<Rightarrow> string \<Rightarrow> unit io" where
  "transaction_update E tid st w =
     (case transactionUpdateError E of
        Some e \<Rightarrow> call (TransactionUpdate tid st) (Inl e) w
      | None \<Rightarrow>
          if find (\<lambda>t. tx_id t = tid) (transactions w) = None
          then call (TransactionUpdate tid st) (Inl (PrismaClientError, ''P2025'')) w
          else call (TransactionUpdate tid st) (Inr ())
                 (w\<lparr>transactions := map (set_tx_status E tid st) (transactions w)\<rparr>))"

text \<open>
  \<open>prisma.$transaction([...])\<close>: the writes of the batch run in sequence inside
  one database transaction; when one of them fails the tables are as before
  the batch and the failure is thrown.
\<close>

definition prisma_transaction :: "unit io \<Rightarrow> unit io" where
  "prisma_transaction batch w =
     (case batch w of
        (Inl e, w') \<Rightarrow> (Inl e, w'\<lparr>orders := orders w, transactions := transactions w\<rparr>)
      | (Inr x, w') \<Rightarrow> (Inr x, w'))"

subsection \<open>Collaborator calls\<close>

definition analyzeTransaction :: "env \<Rightarrow> AntifraudInput \<Rightarrow> string io" where
  "analyzeTransaction E inp =
     call (AntifraudAnalyze (af_orderId inp) (af_paymentMethod inp))
       (antifraud_analyzeTransaction E inp)"

definition createPagSeguroPixCharge :: "env \<Rightarrow> GatewayPayload \<Rightarrow> string \<Rightarrow> PixChargeResponseDto io" where
  "createPagSeguroPixCharge E payload url =
     call (GatewayCreatePixCharge (gp_orderId payload))
       (pagSeguro_createPagSeguroPixCharge E payload url)"

definition processDirectCreditCardPayment :: "env \<Rightarrow> GatewayPayload \<Rightarrow> string \<Rightarrow> CardGatewayResponse io" where
  "processDirectCreditCardPayment E payload url =
     call (GatewayDirectCreditCard (gp_orderId payload))
       (pagSeguro_processDirectCreditCardPayment E payload url)"

definition createPagSeguroCheckoutRedirect :: "env \<Rightarrow> GatewayPayload \<Rightarrow> string \<Rightarrow> RedirectGatewayResponse io" where
  "createPagSeguroCheckoutRedirect E payload url =
     call (GatewayCreateCheckoutRedirect (gp_orderId payload))
       (pagSeguro_createPagSeguroCheckoutRedirect E payload url)"

definition getCheckoutDetails :: "env \<Rightarrow> string \<Rightarrow> Checkout io" where
  "getCheckoutDetails E gid = call (GatewayGetCheckoutDetails gid) (pagSeguro_getCheckoutDetails E gid)"

definition getOrderDetails :: "env \<Rightarrow> string \<Rightarrow> PixOrderDetails io" where
  "getOrderDetails E gid = call (GatewayGetOrderDetails gid) (pagSeguro_getOrderDetails E gid)"

definition sendPaymentConfirmationEmail :: "env \<Rightarrow> string \<Rightarrow> string \<Rightarrow> decimal \<Rightarrow> unit io" where
  "sendPaymentConfirmationEmail E recipient oid amount =
     call (SendPaymentConfirmationEmail recipient oid)
       (failing (notifications_sendPaymentConfirmationEmail E recipient oid amount))"

definition sendPaymentCancellationEmail :: "env \<Rightarrow> string \<Rightarrow> string \<Rightarrow> unit io" where
  "sendPaymentCancellationEmail E recipient oid =
     call (SendPaymentCancellationEmail recipient oid)
       (failing (notifications_sendPaymentCancellationEmail E recipient oid))"

subsection \<open>Messages\<close>

definition msg_order_not_found :: "string \<Rightarrow> string" where
  "msg_order_not_found orderId =
     ''Pedido com ID '' @ orderId @ '' n'' @ [a_tilde] @ ''o encontrado.''"

definition msg_order_not_pending :: string where
  "msg_order_not_pending =
     ''O pedido j'' @ [a_acute] @ '' foi pago ou est'' @ [a_acute] @ '' em outro status.''"

definition msg_not_owner :: string where
  "msg_not_owner = ''Acesso n'' @ [a_tilde] @ ''o autorizado a este pedido.''"

definition msg_no_guest_id :: string where
  "msg_no_guest_id = ''Pedido sem identificador de convidado definido.''"

definition msg_not_guest :: string where
  "msg_not_guest = ''Acesso n'' @ [a_tilde] @ ''o autorizado ao pedido de convidado.''"

definition msg_antifraud_denied :: string where
  "msg_antifraud_denied =
     ''Transa'' @ [c_cedil, a_tilde] @ ''o negada pela an'' @ [a_acute] @ ''lise antifraude.''"

definition msg_backend_url_missing :: string where
  "msg_backend_url_missing =
     ''A vari'' @ [a_acute] @ ''vel de ambiente BACKEND_URL n'' @ [a_tilde] @ ''o est''
     @ [a_acute] @ '' definida.''"

definition msg_pix_failed :: string where
  "msg_pix_failed = ''Falha ao iniciar o processo de pagamento PIX com PagSeguro.''"

definition msg_card_incomplete :: string where
  "msg_card_incomplete =
     ''Dados do cart'' @ [a_tilde] @ ''o incompletos para processamento direto.''"

definition msg_card_failed :: string where
  "msg_card_failed =
     ''Falha ao processar pagamento com cart'' @ [a_tilde] @ ''o de cr'' @ [e_acute] @ ''dito.''"

definition msg_redirect_failed :: string where
  "msg_redirect_failed = ''Falha ao iniciar o processo de pagamento com PagSeguro.''"

definition msg_bad_signature :: string where
  "msg_bad_signature = ''Assinatura do webhook inv'' @ [a_acute] @ ''lida.''"

definition msg_tx_not_found :: string where
  "msg_tx_not_found =
     ''Transa'' @ [c_cedil, a_tilde] @ ''o n'' @ [a_tilde]
     @ ''o encontrada para o checkout ID fornecido.''"

definition msg_no_gateway_id :: string where
  "msg_no_gateway_id = ''Transa'' @ [c_cedil, a_tilde] @ ''o existente sem ID do PagSeguro.''"

definition msg_already_updated :: string where
  "msg_already_updated = ''Status j'' @ [a_acute] @ '' atualizado''"

definition msg_updated :: string where
  "msg_updated = ''Status do pedido atualizado com sucesso''"

subsection \<open>Private helpers of PaymentsService\<close>

definition ensureOrderOwnership :: "Order \<Rightarrow> string option \<Rightarrow> error + unit" where
  "ensureOrderOwnership ord requesterId =
     (if truthy (order_userId ord) then
        (if \<not> truthy requesterId \<or> order_userId ord \<noteq> requesterId
         then Inl (BadRequestException, msg_not_owner)
         else Inr ())
      else if \<not> truthy (order_guestId ord) then Inl (BadRequestException, msg_no_guest_id)
      else if \<not> truthy requesterId \<or> order_guestId ord \<noteq> requesterId
      then Inl (BadRequestException, msg_not_guest)
      else Inr ())"

definition getExistingPaymentTransaction :: "env \<Rightarrow> string \<Rightarrow> Transaction option io" where
  "getExistingPaymentTransaction E orderId = transaction_findUnique E orderId"

text \<open>\<open>String.prototype.trim\<close> on the characters a \<open>char\<close> can hold.\<close>

definition is_space :: "char \<Rightarrow> bool" where
  "is_space c = (c \<in> set [CHR 0x09, CHR 0x0A, CHR 0x0B, CHR 0x0C, CHR 0x0D, CHR 0x20, CHR 0xA0])"

definition trim :: "string \<Rightarrow> string" where
  "trim s = rev (dropWhile is_space (rev (dropWhile is_space s)))"

definition startsWith :: "string \<Rightarrow> string \<Rightarrow> bool" where
  "startsWith s p = (take (length p) s = p)"

text \<open>\<open>order.user?.f\<close>\<close>

definition user_field :: "Order \<Rightarrow> (User \<Rightarrow> string option) \<Rightarrow> string option" where
  "user_field ord f = (case order_user ord of None \<Rightarrow> None | Some u \<Rightarrow> f u)"

definition buildPagSeguroPayload :: "Order \<Rightarrow> Customer \<times> ShippingAddress \<times> PayloadItem list" where
  "buildPagSeguroPayload ord =
     (let customerEmail =
            nullish_default (nullish (user_field ord user_email) (order_guestEmail ord)) [];
          customerFullName = nullish_default (user_field ord user_name) ''Cliente Convidado'';
          phone = trim (nullish_default
                          (nullish (user_field ord user_phone) (order_guestPhone ord)) []);
          customerPhone = (if phone = [] then None else Some phone);
          customerCpf = nullish (user_field ord user_cpf) (order_guestCpf ord);
          customer = \<lparr>cust_email = customerEmail, cust_fullName = customerFullName,
                      cust_phone = customerPhone, cust_cpf = customerCpf\<rparr>;
          shippingAddress =
            \<lparr>addr_cep = order_shippingAddressZipCode ord,
             addr_street = order_shippingAddressStreet ord,
             addr_number = order_shippingAddressNumber ord,
             addr_complement = order_shippingAddressComplement ord,
             addr_neighborhood = order_shippingAddressNeighborhood ord,
             addr_city = order_shippingAddressCity ord,
             addr_state = order_shippingAddressState ord\<rparr>;
          items = map (\<lambda>item. \<lparr>pi_name = item_productName item,
                                pi_quantity = item_quantity item,
                                pi_unit_amount = item_price item\<rparr>) (order_items ord)
      in (customer, shippingAddress, items))"

text \<open>\<open>xs?.[0]\<close> and \<open>links?.find((link) => link.rel === rel)?.href\<close>\<close>

fun first_of :: "'a list option \<Rightarrow> 'a option" where
  "first_of None = None"
| "first_of (Some []) = None"
| "first_of (Some (x # xs)) = Some x"

definition href_of :: "string \<Rightarrow> Link list option \<Rightarrow> string option" where
  "href_of rel links =
     (case links of
        None \<Rightarrow> None
      | Some ls \<Rightarrow> (case find (\<lambda>link. link_rel link = rel) ls of
                     None \<Rightarrow> None
                   | Some link \<Rightarrow> link_href link))"

definition opt_field :: "'a option \<Rightarrow> ('a \<Rightarrow> 'b option) \<Rightarrow> 'b option" where
  "opt_field x f = (case x of None \<Rightarrow> None | Some v \<Rightarrow> f v)"

definition buildPixResponseFromTransaction :: "env \<Rightarrow> Transaction \<Rightarrow> PixChargeResponseDto io" where
  "buildPixResponseFromTransaction E t =
     (if \<not> truthy (tx_gatewayTransactionId t)
      then io_throw (InternalServerErrorException, msg_no_gateway_id)
      else
        let gid = nullish_default (tx_gatewayTransactionId t) [] in
        io_catch
          (io_bind (getOrderDetails E gid)
             (\<lambda>checkout.
                let qrCode = first_of (od_qr_codes checkout);
                    status = mapPixStatus (or_else (opt_field qrCode qr_status) (Some (tx_status t)));
                    brCode = nullish_default
                               (or_else (or_else (opt_field qrCode qr_text) (tx_transactionRef t))
                                  (Some [])) [];
                    qrCodeImage = nullish_default
                               (nullish (opt_field qrCode (\<lambda>q. href_of ''QR_CODE_IMAGE'' (qr_links q)))
                                  (tx_qrCodeUrl t)) [];
                    expiresAt = nullish_default (opt_field qrCode qr_expiration_date) (tx_updatedAt t)
                in io_return
                     \<lparr>pix_transactionId = gid, pix_status = status, pix_brCode = brCode,
                      pix_qrCodeImage = qrCodeImage, pix_expiresAt = expiresAt,
                      pix_amount = tx_amount t,
                      pix_description = nullish_default (tx_description t) [],
                      pix_orderId = nullish_default (tx_orderId t) []\<rparr>))
          (\<lambda>error.
             io_bind (logger WARN)
               (\<lambda>_. io_return
                  \<lparr>pix_transactionId = gid, pix_status = mapPixStatus (Some (tx_status t)),
                   pix_brCode = nullish_default (tx_transactionRef t) [],
                   pix_qrCodeImage = nullish_default (tx_qrCodeUrl t) [],
                   pix_expiresAt = tx_updatedAt t,
                   pix_amount = tx_amount t,
                   pix_description = nullish_default (tx_description t) [],
                   pix_orderId = nullish_default (tx_orderId t) []\<rparr>)))"

definition buildExistingDirectCardResponse :: "env \<Rightarrow> Transaction \<Rightarrow> CardPaymentResult io" where
  "buildExistingDirectCardResponse E t =
     (if \<not> truthy (tx_gatewayTransactionId t)
      then io_throw (InternalServerErrorException, msg_no_gateway_id)
      else
        let gid = nullish_default (tx_gatewayTransactionId t) [] in
        io_catch
          (io_bind (getCheckoutDetails E gid)
             (\<lambda>checkout.
                let charge = first_of (co_charges checkout) in
                io_return
                  \<lparr>cp_transactionId = gid,
                   cp_status = nullish_default
                                 (nullish (opt_field charge charge_status) (co_status checkout))
                                 (tx_status t),
                   cp_transactionRef = nullish (opt_field charge charge_id) (tx_transactionRef t),
                   cp_amount = Some (tx_amount t),
                   cp_description = Some (nullish_default (tx_description t) []),
                   cp_orderId = Some (nullish_default (tx_orderId t) [])\<rparr>))
          (\<lambda>error.
             io_bind (logger WARN)
               (\<lambda>_. io_return
                  \<lparr>cp_transactionId = gid,
                   cp_status = tx_status t,
                   cp_transactionRef = Some (nullish_default (tx_transactionRef t) []),
                   cp_amount = Some (tx_amount t),
                   cp_description = Some (nullish_default (tx_description t) []),
                   cp_orderId = Some (nullish_default (tx_orderId t) [])\<rparr>)))"

definition buildExistingRedirectResponse :: "env \<Rightarrow> Transaction \<Rightarrow> RedirectResult io" where
  "buildExistingRedirectResponse E t =
     (if \<not> truthy (tx_gatewayTransactionId t)
      then io_throw (InternalServerErrorException, msg_no_gateway_id)
      else
        let gid = nullish_default (tx_gatewayTransactionId t) [] in
        io_catch
          (io_bind (getCheckoutDetails E gid)
             (\<lambda>checkout.
                io_return
                  \<lparr>redirectUrl = nullish_default
                                   (nullish (href_of ''PAY'' (co_links checkout)) (tx_transactionRef t)) [],
                   pagSeguroCheckoutId = Some (nullish_default (co_id checkout) gid)\<rparr>))
          (\<lambda>error.
             io_bind (logger WARN)
               (\<lambda>_. io_return
                  \<lparr>redirectUrl = nullish_default (tx_transactionRef t) [],
                   pagSeguroCheckoutId = Some gid\<rparr>)))"

subsection \<open>Payment initiation\<close>

text \<open>
  The \<open>catch\<close> block shared by the three initiation methods: log, re-throw a
  classified gateway failure as it is, replace anything else by a generic
  InternalServerErrorException.
\<close>

definition rethrow_normalised :: "string \<Rightarrow> error \<Rightarrow> 'a io" where
  "rethrow_normalised generic error =
     io_bind (logger ERROR)
       (\<lambda>_. if fst error = InternalServerErrorException
                \<and> startsWith (snd error) ''Falha no PagSeguro:''
             then io_throw error
             else io_throw (InternalServerErrorException, generic))"

definition antifraud_items :: "Order \<Rightarrow> AntifraudItem list" where
  "antifraud_items ord =
     map (\<lambda>item. \<lparr>afi_productId = item_productId item, afi_quantity = item_quantity item,
                   afi_price = item_price item\<rparr>) (order_items ord)"

definition gateway_payload ::
  "Order \<Rightarrow> Customer \<times> ShippingAddress \<times> PayloadItem list \<Rightarrow> CardDetails option \<Rightarrow> GatewayPayload" where
  "gateway_payload ord built cardDetails =
     (case built of (customer, shippingAddress, items) \<Rightarrow>
        \<lparr>gp_orderId = order_id ord,
         gp_amount = order_totalAmount ord,
         gp_description = ''Pagamento do Pedido #'' @ order_id ord @ '' na MKCloset'',
         gp_customer = customer,
         gp_shippingAddress = shippingAddress,
         gp_shippingService = order_shippingService ord,
         gp_shippingPrice = order_shippingPrice ord,
         gp_items = items,
         gp_cardDetails = cardDetails\<rparr>)"

definition createPixCharge :: "env \<Rightarrow> string \<Rightarrow> string \<Rightarrow> PixChargeResponseDto io" where
  "createPixCharge E orderId userId =
     io_bind (findOneById E orderId)
       (\<lambda>found. case found of
          None \<Rightarrow> io_throw (NotFoundException, msg_order_not_found orderId)
        | Some ord \<Rightarrow>
          if order_status ord \<noteq> PENDING
          then io_throw (BadRequestException, msg_order_not_pending)
          else
          io_bind (\<lambda>w. (ensureOrderOwnership ord (Some userId), w))
            (\<lambda>_.
          io_bind (getExistingPaymentTransaction E (order_id ord))
            (\<lambda>existingTransaction. case existingTransaction of
               Some t \<Rightarrow> io_bind (logger LOG) (\<lambda>_. buildPixResponseFromTransaction E t)
             | None \<Rightarrow>
               let built = buildPagSeguroPayload ord; customer = fst built in
               io_catch
                 (io_bind
                    (analyzeTransaction E
                       \<lparr>af_orderId = order_id ord, af_amount = order_totalAmount ord,
                        af_customerEmail = cust_email customer, af_customerCpf = cust_cpf customer,
                        af_paymentMethod = ''PIX'', af_items = antifraud_items ord,
                        af_cardDetails = None\<rparr>)
                    (\<lambda>antifraudStatus.
                       if antifraudStatus = ''DENIED''
                       then io_throw (BadRequestException, msg_antifraud_denied)
                       else
                       if backendUrl E = []
                       then io_throw (InternalServerErrorException, msg_backend_url_missing)
                       else
                       io_bind (createPagSeguroPixCharge E (gateway_payload ord built None) (backendUrl E))
                         (\<lambda>pagSeguroResponse.
                       io_bind
                         (transaction_create E
                            \<lparr>tx_id = [],
                             tx_userId = (if truthy (order_userId ord) then order_userId ord else None),
                             tx_orderId = Some (order_id ord),
                             tx_amount = order_totalAmount ord,
                             tx_type = PAYMENT,
                             tx_status = ''PENDING'',
                             tx_description =
                               Some (''Cobran'' @ [c_cedil] @ ''a PIX para Pedido #'' @ order_id ord),
                             tx_gatewayTransactionId = Some (pix_transactionId pagSeguroResponse),
                             tx_transactionRef = Some (pix_brCode pagSeguroResponse),
                             tx_qrCodeUrl = Some (pix_qrCodeImage pagSeguroResponse),
                             tx_antifraudStatus = Some antifraudStatus,
                             tx_updatedAt = []\<rparr>)
                         (\<lambda>_. io_return pagSeguroResponse))))
                 (rethrow_normalised msg_pix_failed))))"

text \<open>
  The best-effort confirmation mail of the direct card flow (inner \<open>try\<close> of
  \<open>processCreditCardPayment\<close>).
\<close>

definition notifyCardPaid :: "env \<Rightarrow> Order \<Rightarrow> unit io" where
  "notifyCardPaid E ord =
     io_catch
       (let recipientEmail = nullish (user_field ord user_email) (order_guestEmail ord) in
        if truthy recipientEmail
        then sendPaymentConfirmationEmail E (nullish_default recipientEmail [])
               (order_id ord) (order_totalAmount ord)
        else io_return ())
       (\<lambda>emailError. logger ERROR)"

definition processCreditCardPayment ::
  "env \<Rightarrow> string \<Rightarrow> string option \<Rightarrow> ProcessPaymentDto \<Rightarrow> CardPaymentResult io" where
  "processCreditCardPayment E orderId userId processPaymentDto =
     (if \<not> truthy (cardToken processPaymentDto) \<or> \<not> truthy (cardHolderName processPaymentDto)
         \<or> \<not> truthy (cardCpf processPaymentDto)
      then io_throw (BadRequestException, msg_card_incomplete)
      else
      io_bind (findOneById E orderId)
       (\<lambda>found. case found of
          None \<Rightarrow> io_throw (NotFoundException, msg_order_not_found orderId)
        | Some ord \<Rightarrow>
          if order_status ord \<noteq> PENDING
          then io_throw (BadRequestException, msg_order_not_pending)
          else
          io_bind (\<lambda>w. (ensureOrderOwnership ord userId, w))
            (\<lambda>_.
          io_bind (getExistingPaymentTransaction E (order_id ord))
            (\<lambda>existingTransaction. case existingTransaction of
               Some t \<Rightarrow> io_bind (logger LOG) (\<lambda>_. buildExistingDirectCardResponse E t)
             | None \<Rightarrow>
               let built = buildPagSeguroPayload ord; customer = fst built in
               io_catch
                 (io_bind
                    (analyzeTransaction E
                       \<lparr>af_orderId = order_id ord, af_amount = order_totalAmount ord,
                        af_customerEmail = cust_email customer, af_customerCpf = cust_cpf customer,
                        af_paymentMethod = ''CREDIT_CARD'', af_items = antifraud_items ord,
                        af_cardDetails =
                          Some (cardBrand processPaymentDto, cardInstallments processPaymentDto)\<rparr>)
                    (\<lambda>antifraudStatus.
                       if antifraudStatus = ''DENIED''
                       then io_throw (BadRequestException, msg_antifraud_denied)
                       else
                       if backendUrl E = []
                       then io_throw (InternalServerErrorException, msg_backend_url_missing)
                       else
                       io_bind
                         (processDirectCreditCardPayment E
                            (gateway_payload ord built
                               (Some \<lparr>card_token = nullish_default (cardToken processPaymentDto) [],
                                      card_holderName =
                                        nullish_default (cardHolderName processPaymentDto) [],
                                      card_cpf = nullish_default (cardCpf processPaymentDto) [],
                                      card_installments = cardInstallments processPaymentDto\<rparr>))
                            (backendUrl E))
                         (\<lambda>pagSeguroResponse.
                       io_bind
                         (transaction_create E
                            \<lparr>tx_id = [],
                             tx_userId = (if truthy (order_userId ord) then order_userId ord else None),
                             tx_orderId = Some (order_id ord),
                             tx_amount = order_totalAmount ord,
                             tx_type = PAYMENT,
                             tx_status = cg_status pagSeguroResponse,
                             tx_description =
                               Some (''Pagamento com Cart'' @ [a_tilde] @ ''o de Cr'' @ [e_acute]
                                     @ ''dito para Pedido #'' @ order_id ord),
                             tx_gatewayTransactionId = Some (cg_transactionId pagSeguroResponse),
                             tx_transactionRef = cg_transactionRef pagSeguroResponse,
                             tx_qrCodeUrl = None,
                             tx_antifraudStatus = Some antifraudStatus,
                             tx_updatedAt = []\<rparr>)
                         (\<lambda>_.
                       io_bind
                         (if cg_status pagSeguroResponse = orderStatusName PAID
                          then io_bind (order_update E (order_id ord) PAID)
                                 (\<lambda>_. notifyCardPaid E ord)
                          else io_return ())
                         (\<lambda>_. io_return
                            \<lparr>cp_transactionId = cg_transactionId pagSeguroResponse,
                             cp_status = cg_status pagSeguroResponse,
                             cp_transactionRef = cg_transactionRef pagSeguroResponse,
                             cp_amount = None, cp_description = None, cp_orderId = None\<rparr>)))))
                 (rethrow_normalised msg_card_failed)))))"

definition initiatePagSeguroRedirectCheckout ::
  "env \<Rightarrow> string option \<Rightarrow> string \<Rightarrow> RedirectResult io" where
  "initiatePagSeguroRedirectCheckout E userId orderId =
     io_bind (findOneById E orderId)
       (\<lambda>found. case found of
          None \<Rightarrow> io_throw (NotFoundException, msg_order_not_found orderId)
        | Some ord \<Rightarrow>
          if order_status ord \<noteq> PENDING
          then io_throw (BadRequestException, msg_order_not_pending)
          else
          io_bind (\<lambda>w. (ensureOrderOwnership ord userId, w))
            (\<lambda>_.
          io_bind (getExistingPaymentTransaction E (order_id ord))
            (\<lambda>existingTransaction. case existingTransaction of
               Some t \<Rightarrow> io_bind (logger LOG) (\<lambda>_. buildExistingRedirectResponse E t)
             | None \<Rightarrow>
               let built = buildPagSeguroPayload ord; customer = fst built;
                   clientEmail = cust_email customer; clientCpf = cust_cpf customer in
               io_catch
                 (io_bind
                    (analyzeTransaction E
                       \<lparr>af_orderId = order_id ord, af_amount = order_totalAmount ord,
                        af_customerEmail = clientEmail, af_customerCpf = clientCpf,
                        af_paymentMethod = ''REDIRECT_CHECKOUT'', af_items = antifraud_items ord,
                        af_cardDetails = None\<rparr>)
                    (\<lambda>antifraudStatus.
                       if antifraudStatus = ''DENIED''
                       then io_throw (BadRequestException, msg_antifraud_denied)
                       else
                       if backendUrl E = []
                       then io_throw (InternalServerErrorException, msg_backend_url_missing)
                       else
                       io_bind
                         (createPagSeguroCheckoutRedirect E (gateway_payload ord built None)
                            (backendUrl E))
                         (\<lambda>pagSeguroResponse.
                       io_bind
                         (transaction_create E
                            \<lparr>tx_id = [],
                             tx_userId = (if truthy (order_userId ord) then order_userId ord else None),
                             tx_orderId = Some (order_id ord),
                             tx_amount = order_totalAmount ord,
                             tx_type = PAYMENT,
                             tx_status = ''PENDING_REDIRECT'',
                             tx_description =
                               Some (''Inicia'' @ [c_cedil, a_tilde]
                                     @ ''o de pagamento via PagSeguro Checkout para Pedido #''
                                     @ order_id ord),
                             tx_gatewayTransactionId = Some (rg_pagSeguroCheckoutId pagSeguroResponse),
                             tx_transactionRef = Some (rg_redirectUrl pagSeguroResponse),
                             tx_qrCodeUrl = None,
                             tx_antifraudStatus = Some antifraudStatus,
                             tx_updatedAt = []\<rparr>)
                         (\<lambda>_. io_return
                            \<lparr>redirectUrl = rg_redirectUrl pagSeguroResponse,
                             pagSeguroCheckoutId = None\<rparr>))))
                 (rethrow_normalised msg_redirect_failed))))"

subsection \<open>Webhook reconciliation\<close>

text \<open>
  \<open>checkoutDetails.status || checkoutDetails.charges?.[0]?.status || 'PENDING'\<close>
\<close>

definition pagSeguroTransactionStatus :: "Checkout \<Rightarrow> string" where
  "pagSeguroTransactionStatus checkoutDetails =
     nullish_default
       (or_else (or_else (co_status checkoutDetails)
                   (opt_field (first_of (co_charges checkoutDetails)) charge_status))
          (Some ''PENDING'')) []"

text \<open>
  The best-effort notification after the status update (the \<open>try\<close> at the end
  of \<open>handlePagSeguroNotification\<close>). Reading \<open>.user\<close> of a missing order is a
  TypeError, caught like any other failure.
\<close>

definition notifyStatusChange :: "env \<Rightarrow> Order \<Rightarrow> OrderStatus \<Rightarrow> unit io" where
  "notifyStatusChange E ord newOrderStatus =
     io_catch
       (io_bind
          (if truthy (order_userId ord)
           then io_bind (findOneById E (order_id ord))
                  (\<lambda>found. case found of
                     None \<Rightarrow> io_throw (TypeError, ''Cannot read properties of null'')
                   | Some full \<Rightarrow> io_return (user_field full user_email))
           else io_return (order_guestEmail ord))
          (\<lambda>recipientEmail.
             if truthy recipientEmail then
               (if newOrderStatus = PAID
                then sendPaymentConfirmationEmail E (nullish_default recipientEmail [])
                       (order_id ord) (order_totalAmount ord)
                else if newOrderStatus = CANCELLED
                then sendPaymentCancellationEmail E (nullish_default recipientEmail []) (order_id ord)
                else io_return ())
             else io_return ()))
       (\<lambda>emailError. logger ERROR)"

definition handlePagSeguroNotification :: "env \<Rightarrow> string \<Rightarrow> string \<Rightarrow> string \<Rightarrow> string io" where
  "handlePagSeguroNotification E checkoutId signature rawBody =
     io_bind (logger LOG)
       (\<lambda>_.
     io_bind (pagSeguroWebhookSecret E)
       (\<lambda>webhookSecret.
     let expectedSignature = hmacSha256Hex E webhookSecret rawBody in
     if signature \<noteq> expectedSignature
     then io_bind (logger ERROR) (\<lambda>_. io_throw (UnauthorizedException, msg_bad_signature))
     else
     io_bind (logger LOG)
       (\<lambda>_.
     io_bind (getCheckoutDetails E checkoutId)
       (\<lambda>checkoutDetails.
     let newOrderStatus =
           mapPagSeguroStatusToOrderStatus (pagSeguroTransactionStatus checkoutDetails) in
     io_bind (transaction_findFirst E checkoutId)
       (\<lambda>located. case located of
          None \<Rightarrow> io_bind (logger WARN) (\<lambda>_. io_throw (NotFoundException, msg_tx_not_found))
        | Some (t, None) \<Rightarrow>
            io_bind (logger WARN) (\<lambda>_. io_throw (NotFoundException, msg_tx_not_found))
        | Some (t, Some ord) \<Rightarrow>
            if tx_status t = orderStatusName newOrderStatus \<and> order_status ord = newOrderStatus
            then io_bind (logger LOG) (\<lambda>_. io_return msg_already_updated)
            else
            io_bind
              (prisma_transaction
                 (io_bind (transaction_update E (tx_id t) (orderStatusName newOrderStatus))
                    (\<lambda>_. order_update E (order_id ord) newOrderStatus)))
              (\<lambda>_.
            io_bind (logger LOG)
              (\<lambda>_.
            io_bind (notifyStatusChange E ord newOrderStatus)
              (\<lambda>_. io_return msg_updated))))))))"

subsection \<open>The ownership rule in the words of the specification\<close>

text \<open>
  If the order has a registered owner, the requester id must equal it; if it
  has none, it must have a guest id and the requester id must equal that.
\<close>

definition requester_matches :: "Order \<Rightarrow> string option \<Rightarrow> bool" where
  "requester_matches ord requesterId =
     (if truthy (order_userId ord) then requesterId = order_userId ord
      else truthy (order_guestId ord) \<and> requesterId = order_guestId ord)"

subsection \<open>A concrete scenario\<close>

text \<open>
  One pending order of a registered customer, an empty transaction table, and
  collaborators that all answer. The stand-in for the HMAC joins key and body;
  the scenario only needs it to be some function.
\<close>

definition ex_user :: User where
  "ex_user = \<lparr>user_email = Some ''ana@example.com'', user_name = Some ''Ana'',
              user_phone = Some '' 11999990000 '', user_cpf = Some ''12345678909''\<rparr>"

definition ex_order :: Order where
  "ex_order =
     \<lparr>order_id = ''o1'', order_status = PENDING, order_userId = Some ''u1'',
      order_guestId = None, order_guestEmail = None, order_guestPhone = None,
      order_guestCpf = None, order_totalAmount = 15990,
      order_shippingService = Some ''SEDEX'', order_shippingPrice = Some 1990,
      order_shippingAddressZipCode = ''01001000'', order_shippingAddressStreet = ''Rua A'',
      order_shippingAddressNumber = ''10'', order_shippingAddressComplement = None,
      order_shippingAddressNeighborhood = ''Centro'', order_shippingAddressCity = ''Sao Paulo'',
      order_shippingAddressState = ''SP'',
      order_items = [\<lparr>item_productId = ''p1'', item_productName = ''Conjunto Julia'',
                      item_productPrice = 14000, item_quantity = 1, item_price = 14000\<rparr>],
      order_user = Some ex_user\<rparr>"

definition ex_config :: "string \<Rightarrow> string option" where
  "ex_config key =
     (if key = ''BACKEND_URL'' then Some ''https://api.mkcloset.example''
      else if key = ''PAGSEGURO_WEBHOOK_SECRET'' then Some ''whsec''
      else None)"

definition ex_pix_response :: PixChargeResponseDto where
  "ex_pix_response =
     \<lparr>pix_transactionId = ''tx1'', pix_status = PIX_PENDING, pix_brCode = ''00020126BR'',
      pix_qrCodeImage = ''https://gw.example/qr/tx1.png'', pix_expiresAt = ''2026-01-02T00:00:00.000Z'',
      pix_amount = 15990, pix_description = ''Pagamento do Pedido #o1 na MKCloset'',
      pix_orderId = ''o1''\<rparr>"

definition ex_checkout :: Checkout where
  "ex_checkout =
     \<lparr>co_id = Some ''tx1'', co_status = None,
      co_charges = Some [\<lparr>charge_id = Some ''ch1'', charge_status = Some ''APPROVED''\<rparr>],
      co_links = Some [\<lparr>link_rel = ''PAY'', link_href = Some ''https://gw.example/pay/tx1''\<rparr>]\<rparr>"

definition ex_env :: env where
  "ex_env =
     \<lparr>nestConfig = ex_config,
      hmacSha256Hex = (\<lambda>key body. key @ body),
      ordersServiceError = (\<lambda>_. None),
      antifraud_analyzeTransaction = (\<lambda>_. Inr ''APPROVED''),
      pagSeguro_createPagSeguroPixCharge = (\<lambda>_ _. Inr ex_pix_response),
      pagSeguro_processDirectCreditCardPayment =
        (\<lambda>_ _. Inr \<lparr>cg_transactionId = ''tx1'', cg_status = ''PAID'',
                      cg_transactionRef = Some ''ch1''\<rparr>),
      pagSeguro_createPagSeguroCheckoutRedirect =
        (\<lambda>_ _. Inr \<lparr>rg_pagSeguroCheckoutId = ''tx1'',
                      rg_redirectUrl = ''https://gw.example/pay/tx1''\<rparr>),
      pagSeguro_getCheckoutDetails = (\<lambda>_. Inr ex_checkout),
      pagSeguro_getOrderDetails = (\<lambda>_. Inr \<lparr>od_qr_codes = None\<rparr>),
      notifications_sendPaymentConfirmationEmail = (\<lambda>_ _ _. None),
      notifications_sendPaymentCancellationEmail = (\<lambda>_ _. None),
      prismaReadError = None,
      transactionCreateError = None,
      transactionUpdateError = None,
      orderUpdateError = None,
      newTransactionId = ''t1'',
      now = ''2026-01-01T00:00:00.000Z''\<rparr>"

definition ex_world :: world where
  "ex_world = \<lparr>orders = [ex_order], transactions = [], trace = []\<rparr>"

definition ex_dto :: ProcessPaymentDto where
  "ex_dto = \<lparr>cardToken = Some ''tok_1'', cardHolderName = Some ''ANA S'',
             cardCpf = Some ''12345678909'', cardInstallments = Some 1,
             cardBrand = Some ''visa''\<rparr>"

text \<open>A stored transaction of the order, as \<open>createPixCharge\<close> leaves it.\<close>

definition ex_tx :: Transaction where
  "ex_tx =
     \<lparr>tx_id = ''t1'', tx_userId = Some ''u1'', tx_orderId = Some ''o1'', tx_amount = 15990,
      tx_type = PAYMENT, tx_status = ''PENDING'',
      tx_description = Some (''Cobran'' @ [c_cedil] @ ''a PIX para Pedido #o1''),
      tx_gatewayTransactionId = Some ''tx1'', tx_transactionRef = Some ''00020126BR'',
      tx_qrCodeUrl = Some ''https://gw.example/qr/tx1.png'',
      tx_antifraudStatus = Some ''APPROVED'', tx_updatedAt = ''2026-01-01T00:00:00.000Z''\<rparr>"

subsection \<open>Notions used by the statements\<close>

text \<open>
  The outcome of a webhook whose signature does not verify: Unauthorized, the
  tables as they were, and nothing in the call log but the two log lines.
\<close>

definition signature_rejected :: "world \<Rightarrow> (error + string) \<times> world" where
  "signature_rejected w =
     (Inl (UnauthorizedException, msg_bad_signature),
      w\<lparr>trace := trace w @ [Logged LOG, Logged ERROR]\<rparr>)"

text \<open>
  What a reader sees of a payment through its gateway id: the status of the
  transaction and the status of its order.
\<close>

definition observed_status :: "world \<Rightarrow> string \<Rightarrow> (string \<times> OrderStatus) option" where
  "observed_status w gatewayId =
     (case find (\<lambda>t. tx_gatewayTransactionId t = Some gatewayId) (transactions w) of
        None \<Rightarrow> None
      | Some t \<Rightarrow> (case order_of w t of
                    None \<Rightarrow> None
                  | Some ord \<Rightarrow> Some (tx_status t, order_status ord)))"

text \<open>The calls a method made: the entries it added to the call log.\<close>

definition new_events :: "world \<Rightarrow> world \<Rightarrow> event list" where
  "new_events w w' = drop (length (trace w)) (trace w')"

fun is_gateway_create :: "event \<Rightarrow> bool" where
  "is_gateway_create (GatewayCreatePixCharge _) = True"
| "is_gateway_create (GatewayDirectCreditCard _) = True"
| "is_gateway_create (GatewayCreateCheckoutRedirect _) = True"
| "is_gateway_create _ = False"

fun is_write :: "event \<Rightarrow> bool" where
  "is_write (TransactionCreate _) = True"
| "is_write (TransactionUpdate _ _) = True"
| "is_write (OrderUpdate _ _) = True"
| "is_write _ = False"

text \<open>
  Three properties of a method, over every state: it only adds to the call log
  and leaves the tables alone; it returns rather than throws; its call log
  extends the one it started from.
\<close>

definition appends_only :: "'a io \<Rightarrow> bool" where
  "appends_only m = (\<forall>w. \<exists>evs. snd (m w) = w\<lparr>trace := trace w @ evs\<rparr>)"

definition never_throws :: "'a io \<Rightarrow> bool" where
  "never_throws m = (\<forall>w. \<exists>x. fst (m w) = Inr x)"

definition trace_grows :: "'a io \<Rightarrow> bool" where
  "trace_grows m = (\<forall>w. \<exists>evs. trace (snd (m w)) = trace w @ evs)"

text \<open>
  The outcome of a webhook that finds transaction and order already at the
  computed status: success, the tables as they were, and a call log showing
  the gateway lookup and the transaction lookup but no write.
\<close>

definition noop_result :: "world \<Rightarrow> string \<Rightarrow> (error + string) \<times> world" where
  "noop_result w cid =
     (Inr msg_already_updated,
      w\<lparr>trace := trace w @ [Logged LOG, Logged LOG, GatewayGetCheckoutDetails cid,
                               TransactionFindFirst cid, Logged LOG]\<rparr>)"

text \<open>The scenario after \<open>createPixCharge\<close> has stored the transaction.\<close>

definition ex_world_tx :: world where
  "ex_world_tx = \<lparr>orders = [ex_order], transactions = [ex_tx], trace = []\<rparr>"

text \<open>Collaborators whose mail service is down.\<close>

definition ex_env_mail_down :: env where
  "ex_env_mail_down =
     ex_env\<lparr>notifications_sendPaymentConfirmationEmail :=
               (\<lambda>_ _ _. Some (ExternalError, ''SMTP connection refused''))\<rparr>"


text \<open>A call that neither creates something at the gateway nor writes to the store.\<close>

definition read_only :: "event \<Rightarrow> bool" where
  "read_only ev = (\<not> is_gateway_create ev \<and> \<not> is_write ev)"

text \<open>A stored transaction without gateway id, and the scenario holding it.\<close>

definition ex_tx_no_gateway_id :: Transaction where
  "ex_tx_no_gateway_id = ex_tx\<lparr>tx_gatewayTransactionId := None\<rparr>"

definition ex_world_no_gateway_id :: world where
  "ex_world_no_gateway_id = \<lparr>orders = [ex_order], transactions = [ex_tx_no_gateway_id], trace = []\<rparr>"

text \<open>Collaborators whose gateway cannot be queried, and whose antifraud service denies.\<close>

definition ex_env_gateway_down :: env where
  "ex_env_gateway_down =
     ex_env\<lparr>pagSeguro_getCheckoutDetails := (\<lambda>_. Inl (ExternalError, ''ECONNREFUSED'')),
            pagSeguro_getOrderDetails := (\<lambda>_. Inl (ExternalError, ''ECONNREFUSED''))\<rparr>"

definition ex_env_denied :: env where
  "ex_env_denied = ex_env\<lparr>antifraud_analyzeTransaction := (\<lambda>_. Inr ''DENIED'')\<rparr>"

text \<open>Collections of defining equations for evaluation.\<close>

lemmas io_defs = io_return_def io_throw_def io_bind_def io_catch_def emit_def call_def
  failing_def logger_def

lemmas msg_defs = a_acute_def a_tilde_def c_cedil_def e_acute_def o_tilde_def
  msg_webhook_secret_missing_def msg_order_not_found_def msg_order_not_pending_def
  msg_not_owner_def msg_no_guest_id_def msg_not_guest_def msg_antifraud_denied_def
  msg_backend_url_missing_def msg_pix_failed_def msg_card_incomplete_def msg_card_failed_def
  msg_redirect_failed_def msg_bad_signature_def msg_tx_not_found_def msg_no_gateway_id_def
  msg_already_updated_def msg_updated_def

lemmas store_defs = findOneById_def transaction_findUnique_def order_of_def
  transaction_findFirst_def transaction_create_def set_order_status_def set_tx_status_def
  order_update_def transaction_update_def prisma_transaction_def
  getExistingPaymentTransaction_def

lemmas collab_defs = backendUrl_def pagSeguroWebhookSecret_def analyzeTransaction_def
  createPagSeguroPixCharge_def processDirectCreditCardPayment_def
  createPagSeguroCheckoutRedirect_def getCheckoutDetails_def getOrderDetails_def
  sendPaymentConfirmationEmail_def sendPaymentCancellationEmail_def

lemmas helper_defs = ensureOrderOwnership_def or_else_def is_space_def trim_def startsWith_def
  user_field_def buildPagSeguroPayload_def href_of_def opt_field_def rethrow_normalised_def
  antifraud_items_def gateway_payload_def pagSeguroTransactionStatus_def

lemmas ex_defs = ex_user_def ex_order_def ex_config_def ex_pix_response_def ex_checkout_def
  ex_world_tx_def ex_env_mail_down_def ex_tx_no_gateway_id_def ex_world_no_gateway_id_def
  ex_env_gateway_down_def ex_env_denied_def
  ex_env_def ex_world_def ex_dto_def ex_tx_def

section \<open>Reasoning about effects\<close>

declare mapPagSeguroStatusToOrderStatus.simps [simp del]
declare mapPixStatus.simps [simp del]

subsection \<open>Stepping through a method\<close>

lemma io_bind_alt:
  "io_bind m f w = (case fst (m w) of Inl e \<Rightarrow> (Inl e, snd (m w)) | Inr x \<Rightarrow> f x (snd (m w)))"
  by (simp add: io_bind_def split: prod.split sum.split)

lemma io_catch_alt:
  "io_catch m h w = (case fst (m w) of Inl e \<Rightarrow> h e (snd (m w)) | Inr x \<Rightarrow> (Inr x, snd (m w)))"
  by (simp add: io_catch_def split: prod.split sum.split)

lemmas exec = io_bind_alt io_catch_alt io_return_def io_throw_def emit_def call_def logger_def
  failing_def

subsection \<open>Methods that only add to the call log\<close>

lemma ao_return: "appends_only (io_return x)"
  unfolding appends_only_def io_return_def by (auto intro: exI[of _ "[]"])

lemma ao_throw: "appends_only (io_throw e)"
  unfolding appends_only_def io_throw_def by (auto intro: exI[of _ "[]"])

lemma ao_call: "appends_only (call ev r)"
  unfolding appends_only_def call_def by auto

lemma ao_emit: "appends_only (emit ev)"
  unfolding appends_only_def emit_def by auto

lemma ao_logger: "appends_only (logger l)"
  unfolding logger_def by (rule ao_emit)

lemma ao_bind: 
  assumes "appends_only m" "\<And>x. appends_only (f x)"
  shows "appends_only (io_bind m f)"
  unfolding appends_only_def
proof
  fix w
  obtain evs where 1: "snd (m w) = w\<lparr>trace := trace w @ evs\<rparr>"
    using assms(1) unfolding appends_only_def by blast
  show "\<exists>evs. snd (io_bind m f w) = w\<lparr>trace := trace w @ evs\<rparr>"
  proof (cases "fst (m w)")
    case (Inl e)
    then show ?thesis using 1 by (auto simp add: io_bind_alt)
  next
    case (Inr x)
    obtain evs' where 2: "snd (f x (snd (m w))) = (snd (m w))\<lparr>trace := trace (snd (m w)) @ evs'\<rparr>"
      using assms(2)[of x] unfolding appends_only_def by blast
    show ?thesis using Inr 1 2 by (auto simp add: io_bind_alt)
  qed
qed

lemma ao_catch: 
  assumes "appends_only m" "\<And>e. appends_only (h e)"
  shows "appends_only (io_catch m h)"
  unfolding appends_only_def
proof
  fix w
  obtain evs where 1: "snd (m w) = w\<lparr>trace := trace w @ evs\<rparr>"
    using assms(1) unfolding appends_only_def by blast
  show "\<exists>evs. snd (io_catch m h w) = w\<lparr>trace := trace w @ evs\<rparr>"
  proof (cases "fst (m w)")
    case (Inr x)
    then show ?thesis using 1 by (auto simp add: io_catch_alt)
  next
    case (Inl e)
    obtain evs' where 2: "snd (h e (snd (m w))) = (snd (m w))\<lparr>trace := trace (snd (m w)) @ evs'\<rparr>"
      using assms(2)[of e] unfolding appends_only_def by blast
    show ?thesis using Inl 1 2 by (auto simp add: io_catch_alt)
  qed
qed

lemma ao_if: "appends_only a \<Longrightarrow> appends_only b \<Longrightarrow> appends_only (if c then a else b)"
  by simp

lemma ao_case_option:
  "appends_only a \<Longrightarrow> (\<And>y. appends_only (b y)) \<Longrightarrow> appends_only (case x of None \<Rightarrow> a | Some y \<Rightarrow> b y)"
  by (cases x) simp_all

lemma ao_findOneById: "appends_only (findOneById E oid)"
  unfolding appends_only_def findOneById_def call_def by auto

lemma ao_sendConfirmation: "appends_only (sendPaymentConfirmationEmail E r oid a)"
  unfolding sendPaymentConfirmationEmail_def by (rule ao_call)

lemma ao_sendCancellation: "appends_only (sendPaymentCancellationEmail E r oid)"
  unfolding sendPaymentCancellationEmail_def by (rule ao_call)

lemma ao_getCheckoutDetails: "appends_only (getCheckoutDetails E gid)"
  unfolding getCheckoutDetails_def by (rule ao_call)

lemma ao_getOrderDetails: "appends_only (getOrderDetails E gid)"
  unfolding getOrderDetails_def by (rule ao_call)

lemmas ao_intros = ao_return ao_throw ao_call ao_emit ao_logger ao_bind ao_catch ao_if
  ao_case_option ao_findOneById ao_sendConfirmation ao_sendCancellation
  ao_getCheckoutDetails ao_getOrderDetails

lemma appends_onlyD:
  "appends_only m \<Longrightarrow> orders (snd (m w)) = orders w \<and> transactions (snd (m w)) = transactions w
     \<and> (\<exists>evs. trace (snd (m w)) = trace w @ evs)"
proof -
  assume "appends_only m"
  then obtain evs where "snd (m w) = w\<lparr>trace := trace w @ evs\<rparr>"
    unfolding appends_only_def by blast
  then show ?thesis by simp
qed

subsection \<open>Methods that never throw\<close>

lemma nt_return: "never_throws (io_return x)"
  unfolding never_throws_def io_return_def by simp

lemma nt_logger: "never_throws (logger l)"
  unfolding never_throws_def logger_def emit_def by simp

lemma nt_bind:
  assumes "never_throws m" "\<And>x. never_throws (f x)"
  shows "never_throws (io_bind m f)"
  unfolding never_throws_def
proof
  fix w
  obtain x where 1: "fst (m w) = Inr x" using assms(1) unfolding never_throws_def by blast
  obtain y where "fst (f x (snd (m w))) = Inr y"
    using assms(2)[of x] unfolding never_throws_def by blast
  with 1 show "\<exists>y. fst (io_bind m f w) = Inr y" by (simp add: io_bind_alt)
qed

lemma nt_catch:
  assumes "\<And>e. never_throws (h e)"
  shows "never_throws (io_catch m h)"
  unfolding never_throws_def
proof
  fix w
  show "\<exists>y. fst (io_catch m h w) = Inr y"
  proof (cases "fst (m w)")
    case (Inr x) then show ?thesis by (simp add: io_catch_alt)
  next
    case (Inl e)
    obtain y where "fst (h e (snd (m w))) = Inr y"
      using assms[of e] unfolding never_throws_def by blast
    with Inl show ?thesis by (simp add: io_catch_alt)
  qed
qed

subsection \<open>The call log only grows\<close>

lemma tg_appends: "appends_only m \<Longrightarrow> trace_grows m"
  unfolding trace_grows_def using appends_onlyD by blast

lemma tg_bind:
  assumes "trace_grows m" "\<And>x. trace_grows (f x)"
  shows "trace_grows (io_bind m f)"
  unfolding trace_grows_def
proof
  fix w
  obtain evs where 1: "trace (snd (m w)) = trace w @ evs"
    using assms(1) unfolding trace_grows_def by blast
  show "\<exists>evs. trace (snd (io_bind m f w)) = trace w @ evs"
  proof (cases "fst (m w)")
    case (Inl e)
    then show ?thesis using 1 by (simp add: io_bind_alt)
  next
    case (Inr x)
    obtain evs' where "trace (snd (f x (snd (m w)))) = trace (snd (m w)) @ evs'"
      using assms(2)[of x] unfolding trace_grows_def by blast
    then show ?thesis using Inr 1 by (simp add: io_bind_alt)
  qed
qed

lemma tg_catch:
  assumes "trace_grows m" "\<And>e. trace_grows (h e)"
  shows "trace_grows (io_catch m h)"
  unfolding trace_grows_def
proof
  fix w
  obtain evs where 1: "trace (snd (m w)) = trace w @ evs"
    using assms(1) unfolding trace_grows_def by blast
  show "\<exists>evs. trace (snd (io_catch m h w)) = trace w @ evs"
  proof (cases "fst (m w)")
    case (Inr x)
    then show ?thesis using 1 by (simp add: io_catch_alt)
  next
    case (Inl e)
    obtain evs' where "trace (snd (h e (snd (m w)))) = trace (snd (m w)) @ evs'"
      using assms(2)[of e] unfolding trace_grows_def by blast
    then show ?thesis using Inl 1 by (simp add: io_catch_alt)
  qed
qed

lemma tg_if: "trace_grows a \<Longrightarrow> trace_grows b \<Longrightarrow> trace_grows (if c then a else b)"
  by simp

lemma tg_case_option:
  "trace_grows a \<Longrightarrow> (\<And>y. trace_grows (b y)) \<Longrightarrow> trace_grows (case x of None \<Rightarrow> a | Some y \<Rightarrow> b y)"
  by (cases x) simp_all

lemma tg_case_prod:
  "(\<And>a b. trace_grows (f a b)) \<Longrightarrow> trace_grows (case p of (a, b) \<Rightarrow> f a b)"
  by (cases p) simp

lemma tg_transaction_findFirst: "trace_grows (transaction_findFirst E gid)"
  unfolding trace_grows_def transaction_findFirst_def call_def by simp

lemma tg_transaction_findUnique: "trace_grows (transaction_findUnique E oid)"
  unfolding trace_grows_def transaction_findUnique_def call_def by simp

lemma tg_transaction_update: "trace_grows (transaction_update E tid st)"
  unfolding trace_grows_def transaction_update_def call_def by (simp split: option.split)

lemma tg_order_update: "trace_grows (order_update E oid st)"
  unfolding trace_grows_def order_update_def call_def by (simp split: option.split)

lemma tg_transaction_create: "trace_grows (transaction_create E row)"
  unfolding trace_grows_def transaction_create_def call_def by (simp split: option.split)

lemma tg_prisma_transaction:
  assumes "trace_grows batch"
  shows "trace_grows (prisma_transaction batch)"
  unfolding trace_grows_def
proof
  fix w
  obtain evs where "trace (snd (batch w)) = trace w @ evs"
    using assms unfolding trace_grows_def by blast
  then show "\<exists>evs. trace (snd (prisma_transaction batch w)) = trace w @ evs"
    by (cases "batch w"; cases "fst (batch w)") (auto simp add: prisma_transaction_def)
qed

lemmas tg_prims = ao_return ao_throw ao_call ao_emit ao_logger ao_findOneById
  ao_sendConfirmation ao_sendCancellation ao_getCheckoutDetails ao_getOrderDetails

lemmas tg_intros = tg_bind tg_catch tg_if tg_case_option tg_case_prod tg_transaction_findFirst
  tg_transaction_findUnique tg_transaction_update tg_order_update tg_transaction_create
  tg_prisma_transaction tg_prims[THEN tg_appends]

subsection \<open>The notification after a status change\<close>

lemma ao_notifyStatusChange: "appends_only (notifyStatusChange E ord new)"
  unfolding notifyStatusChange_def by (intro ao_intros)

lemma nt_notifyStatusChange: "never_throws (notifyStatusChange E ord new)"
  unfolding notifyStatusChange_def by (intro nt_catch nt_logger)

lemma notifyStatusChange_fst: "fst (notifyStatusChange E ord new w) = Inr ()"
  using nt_notifyStatusChange[of E ord new] unfolding never_throws_def by simp

lemma notifyStatusChange_orders: "orders (snd (notifyStatusChange E ord new w)) = orders w"
  using appends_onlyD[OF ao_notifyStatusChange] by blast

lemma notifyStatusChange_transactions:
  "transactions (snd (notifyStatusChange E ord new w)) = transactions w"
  using appends_onlyD[OF ao_notifyStatusChange] by blast

lemma tg_notifyStatusChange: "trace_grows (notifyStatusChange E ord new)"
  by (rule tg_appends[OF ao_notifyStatusChange])

lemma find_same_key: "find P xs = Some x \<Longrightarrow> (find (\<lambda>y. k y = k x) xs = None) = False"
  by (induction xs) (auto split: if_splits)

lemma order_of_find:
  "order_of w t = Some ord \<Longrightarrow> find (\<lambda>x. order_id x = order_id ord) (orders w) = Some ord"
  by (auto simp add: order_of_def find_Some_iff split: option.splits)

lemma order_of_trace [simp]: "order_of (w\<lparr>trace := tr\<rparr>) t = order_of w t"
  by (simp add: order_of_def split: option.split)

lemma find_map_preserve:
  "find P xs = Some x \<Longrightarrow> (\<And>y. P (f y) = P y) \<Longrightarrow> find P (map f xs) = Some (f x)"
  by (induction xs) (auto split: if_splits)

lemmas handle_exec = handlePagSeguroNotification_def exec pagSeguroWebhookSecret_def
  getCheckoutDetails_def transaction_findFirst_def prisma_transaction_def
  transaction_update_def order_update_def Let_def
  notifyStatusChange_fst notifyStatusChange_orders notifyStatusChange_transactions

lemma handle_commit:
  assumes secret: "nestConfig E ''PAGSEGURO_WEBHOOK_SECRET'' = Some S" "S \<noteq> []"
    and sg: "sg = hmacSha256Hex E S B"
    and details: "pagSeguro_getCheckoutDetails E cid = Inr d"
    and rd: "prismaReadError E = None"
    and tx: "find (\<lambda>t. tx_gatewayTransactionId t = Some cid) (transactions w) = Some t"
    and ord: "order_of w t = Some ord"
    and change: "\<not> (tx_status t = orderStatusName (mapPagSeguroStatusToOrderStatus (pagSeguroTransactionStatus d))
           \<and> order_status ord = mapPagSeguroStatusToOrderStatus (pagSeguroTransactionStatus d))"
    and commit: "transactionUpdateError E = None" "orderUpdateError E = None"
  shows "fst (handlePagSeguroNotification E cid sg B w) = Inr msg_updated"
    and "transactions (snd (handlePagSeguroNotification E cid sg B w))
         = map (set_tx_status E (tx_id t) (orderStatusName (mapPagSeguroStatusToOrderStatus (pagSeguroTransactionStatus d)))) (transactions w)"
    and "orders (snd (handlePagSeguroNotification E cid sg B w))
         = map (set_order_status (order_id ord) (mapPagSeguroStatusToOrderStatus (pagSeguroTransactionStatus d))) (orders w)"
proof -
  let ?new = "mapPagSeguroStatusToOrderStatus (pagSeguroTransactionStatus d)"
  have c: "(tx_status t = orderStatusName ?new \<and> order_status ord = ?new) = False"
    using change by simp
  note facts = secret sg details rd tx ord c commit find_same_key[OF tx, of tx_id]
    order_of_find[OF ord]
  show "fst (handlePagSeguroNotification E cid sg B w) = Inr msg_updated"
    by (simp add: handle_exec facts)
  show "transactions (snd (handlePagSeguroNotification E cid sg B w))
         = map (set_tx_status E (tx_id t) (orderStatusName ?new)) (transactions w)"
    by (simp add: handle_exec facts)
  show "orders (snd (handlePagSeguroNotification E cid sg B w))
         = map (set_order_status (order_id ord) ?new) (orders w)"
    by (simp add: handle_exec facts)
qed

subsection \<open>Outcomes of the webhook handler\<close>

lemma world_restore [simp]:
  "w\<lparr>trace := tr, orders := orders w, transactions := transactions w\<rparr> = w\<lparr>trace := tr\<rparr>"
  by simp

lemma notifyStatusChange_trace:
  "trace (snd (notifyStatusChange E ord new w))
   = trace w @ new_events w (snd (notifyStatusChange E ord new w))"
proof -
  obtain evs where "trace (snd (notifyStatusChange E ord new w)) = trace w @ evs"
    using appends_onlyD[OF ao_notifyStatusChange] by blast
  then show ?thesis by (simp add: new_events_def)
qed

lemma handle_commit_trace:
  assumes secret: "nestConfig E ''PAGSEGURO_WEBHOOK_SECRET'' = Some S" "S \<noteq> []"
    and sg: "sg = hmacSha256Hex E S B"
    and details: "pagSeguro_getCheckoutDetails E cid = Inr d"
    and rd: "prismaReadError E = None"
    and tx: "find (\<lambda>t. tx_gatewayTransactionId t = Some cid) (transactions w) = Some t"
    and ord: "order_of w t = Some ord"
    and change: "\<not> (tx_status t = orderStatusName (mapPagSeguroStatusToOrderStatus (pagSeguroTransactionStatus d))
           \<and> order_status ord = mapPagSeguroStatusToOrderStatus (pagSeguroTransactionStatus d))"
    and commit: "transactionUpdateError E = None" "orderUpdateError E = None"
  shows "take 7 (new_events w (snd (handlePagSeguroNotification E cid sg B w)))
         = [Logged LOG, Logged LOG, GatewayGetCheckoutDetails cid, TransactionFindFirst cid,
            TransactionUpdate (tx_id t) (orderStatusName (mapPagSeguroStatusToOrderStatus (pagSeguroTransactionStatus d))),
            OrderUpdate (order_id ord) (mapPagSeguroStatusToOrderStatus (pagSeguroTransactionStatus d)),
            Logged LOG]"
proof -
  let ?new = "mapPagSeguroStatusToOrderStatus (pagSeguroTransactionStatus d)"
  have c: "(tx_status t = orderStatusName ?new \<and> order_status ord = ?new) = False"
    using change by simp
  note facts = secret sg details rd tx ord c commit find_same_key[OF tx, of tx_id]
    order_of_find[OF ord]
  show ?thesis
    by (simp add: handle_exec facts notifyStatusChange_trace new_events_def[of w])
qed

lemma handle_secret_missing:
  assumes "\<not> truthy (nestConfig E ''PAGSEGURO_WEBHOOK_SECRET'')"
  shows "handlePagSeguroNotification E cid sg B w
         = (Inl (InternalServerErrorException, msg_webhook_secret_missing),
            w\<lparr>trace := trace w @ [Logged LOG, ConsoleWarn]\<rparr>)"
  using assms
  by (cases "nestConfig E ''PAGSEGURO_WEBHOOK_SECRET''") (simp_all add: handle_exec)

lemma handle_bad_signature:
  assumes "nestConfig E ''PAGSEGURO_WEBHOOK_SECRET'' = Some S" "S \<noteq> []"
    and "sg \<noteq> hmacSha256Hex E S B"
  shows "handlePagSeguroNotification E cid sg B w = signature_rejected w"
  using assms by (simp add: handle_exec signature_rejected_def)

lemma handle_outcomes:
  assumes secret: "nestConfig E ''PAGSEGURO_WEBHOOK_SECRET'' = Some S" "S \<noteq> []"
    and sg: "sg = hmacSha256Hex E S B"
  shows "((\<exists>e. fst (handlePagSeguroNotification E cid sg B w) = Inl e)
          \<and> orders (snd (handlePagSeguroNotification E cid sg B w)) = orders w
          \<and> transactions (snd (handlePagSeguroNotification E cid sg B w)) = transactions w
          \<and> take 3 (new_events w (snd (handlePagSeguroNotification E cid sg B w)))
              = [Logged LOG, Logged LOG, GatewayGetCheckoutDetails cid])
       \<or> (\<exists>d t ord. pagSeguro_getCheckoutDetails E cid = Inr d \<and> prismaReadError E = None
             \<and> find (\<lambda>t. tx_gatewayTransactionId t = Some cid) (transactions w) = Some t
             \<and> order_of w t = Some ord
             \<and> tx_status t = orderStatusName (mapPagSeguroStatusToOrderStatus (pagSeguroTransactionStatus d))
             \<and> order_status ord = mapPagSeguroStatusToOrderStatus (pagSeguroTransactionStatus d)
             \<and> handlePagSeguroNotification E cid sg B w = noop_result w cid)
       \<or> (\<exists>d t ord. pagSeguro_getCheckoutDetails E cid = Inr d \<and> prismaReadError E = None
             \<and> find (\<lambda>t. tx_gatewayTransactionId t = Some cid) (transactions w) = Some t
             \<and> order_of w t = Some ord
             \<and> \<not> (tx_status t = orderStatusName (mapPagSeguroStatusToOrderStatus (pagSeguroTransactionStatus d))
                  \<and> order_status ord = mapPagSeguroStatusToOrderStatus (pagSeguroTransactionStatus d))
             \<and> transactionUpdateError E = None \<and> orderUpdateError E = None)"
    (is "?failed \<or> ?noop \<or> ?commit")
proof (cases "pagSeguro_getCheckoutDetails E cid")
  case (Inl e)
  then have ?failed using secret sg by (simp add: handle_exec new_events_def)
  then show ?thesis by blast
next
  case (Inr d)
  let ?new = "mapPagSeguroStatusToOrderStatus (pagSeguroTransactionStatus d)"
  show ?thesis
  proof (cases "prismaReadError E")
    case (Some e)
    then have ?failed using secret sg Inr by (simp add: handle_exec new_events_def)
    then show ?thesis by blast
  next
    case None
    note rd = this
    show ?thesis
    proof (cases "find (\<lambda>t. tx_gatewayTransactionId t = Some cid) (transactions w)")
      case None
      then have ?failed using secret sg Inr rd by (simp add: handle_exec new_events_def)
      then show ?thesis by blast
    next
      case (Some t)
      note tx = this
      show ?thesis
      proof (cases "order_of w t")
        case None
        then have ?failed using secret sg Inr rd tx by (simp add: handle_exec new_events_def)
        then show ?thesis by blast
      next
        case (Some ord)
        note ord = this
        show ?thesis
        proof (cases "tx_status t = orderStatusName ?new \<and> order_status ord = ?new")
          case True
          then have "handlePagSeguroNotification E cid sg B w = noop_result w cid"
            using secret sg Inr rd tx ord by (simp add: handle_exec noop_result_def)
          then have ?noop using Inr rd tx ord True by simp
          then show ?thesis by blast
        next
          case False
          then have c: "(tx_status t = orderStatusName ?new \<and> order_status ord = ?new) = False"
            by simp
          note facts = secret sg Inr rd tx ord c find_same_key[OF tx, of tx_id] order_of_find[OF ord]
          show ?thesis
          proof (cases "transactionUpdateError E")
            case (Some e)
            then have ?failed by (simp add: handle_exec facts new_events_def)
            then show ?thesis by blast
          next
            case None
            note tu = this
            show ?thesis
            proof (cases "orderUpdateError E")
              case (Some e)
              then have ?failed by (simp add: handle_exec facts tu new_events_def)
              then show ?thesis by blast
            next
              case None
              then have ?commit using Inr rd tx ord False tu by simp
              then show ?thesis by blast
            qed
          qed
        qed
      qed
    qed
  qed
qed

lemma rejected_events: "new_events w (snd (signature_rejected w)) = [Logged LOG, Logged ERROR]"
  by (simp add: signature_rejected_def new_events_def)

lemma good_signature_proceeds:
  assumes secret: "nestConfig E ''PAGSEGURO_WEBHOOK_SECRET'' = Some S" "S \<noteq> []"
    and sg: "sg = hmacSha256Hex E S B"
  shows "take 3 (new_events w (snd (handlePagSeguroNotification E cid sg B w)))
         = [Logged LOG, Logged LOG, GatewayGetCheckoutDetails cid]"
proof -
  let ?H = "handlePagSeguroNotification E cid sg B w"
  from handle_outcomes[OF secret sg, of cid w]
  consider (failed) "take 3 (new_events w (snd ?H)) = [Logged LOG, Logged LOG, GatewayGetCheckoutDetails cid]"
    | (noop) "?H = noop_result w cid"
    | (commit) d t ord where "pagSeguro_getCheckoutDetails E cid = Inr d" "prismaReadError E = None"
        "find (\<lambda>t. tx_gatewayTransactionId t = Some cid) (transactions w) = Some t"
        "order_of w t = Some ord"
        "\<not> (tx_status t = orderStatusName (mapPagSeguroStatusToOrderStatus (pagSeguroTransactionStatus d))
            \<and> order_status ord = mapPagSeguroStatusToOrderStatus (pagSeguroTransactionStatus d))"
        "transactionUpdateError E = None" "orderUpdateError E = None"
    by blast
  then show ?thesis
  proof cases
    case failed
    then show ?thesis .
  next
    case noop
    then show ?thesis by (simp add: noop_result_def new_events_def)
  next
    case commit
    have "take 3 (take 7 (new_events w (snd ?H))) = [Logged LOG, Logged LOG, GatewayGetCheckoutDetails cid]"
      by (simp only: handle_commit_trace[OF secret sg commit]) simp
    then show ?thesis by simp
  qed
qed

subsection \<open>What is observed after the status update\<close>

lemma observed_status_tables:
  "orders w' = orders w \<Longrightarrow> transactions w' = transactions w
   \<Longrightarrow> observed_status w' cid = observed_status w cid"
  by (simp add: observed_status_def order_of_def split: option.split)

lemma set_tx_status_gateway [simp]:
  "tx_gatewayTransactionId (set_tx_status E tid st t) = tx_gatewayTransactionId t"
  "tx_orderId (set_tx_status E tid st t) = tx_orderId t"
  by (simp_all add: set_tx_status_def)

lemma set_order_status_id [simp]: "order_id (set_order_status oid st ord) = order_id ord"
  by (simp add: set_order_status_def)

lemma observed_after_commit:
  assumes tx: "find (\<lambda>t. tx_gatewayTransactionId t = Some cid) (transactions w) = Some t"
    and ord: "order_of w t = Some ord"
    and txs: "transactions w' = map (set_tx_status E (tx_id t) st) (transactions w)"
    and ords: "orders w' = map (set_order_status (order_id ord) new) (orders w)"
  shows "find (\<lambda>t. tx_gatewayTransactionId t = Some cid) (transactions w')
           = Some (t\<lparr>tx_status := st, tx_updatedAt := now E\<rparr>)"
    and "order_of w' (t\<lparr>tx_status := st, tx_updatedAt := now E\<rparr>) = Some (ord\<lparr>order_status := new\<rparr>)"
    and "observed_status w' cid = Some (st, new)"
proof -
  have 1: "find (\<lambda>t. tx_gatewayTransactionId t = Some cid) (transactions w')
           = Some (set_tx_status E (tx_id t) st t)"
    unfolding txs by (rule find_map_preserve[OF tx]) simp
  then show a: "find (\<lambda>t. tx_gatewayTransactionId t = Some cid) (transactions w')
           = Some (t\<lparr>tx_status := st, tx_updatedAt := now E\<rparr>)"
    by (simp add: set_tx_status_def)
  obtain oid where oid: "tx_orderId t = Some oid"
    and f: "find (\<lambda>x. order_id x = oid) (orders w) = Some ord"
    using ord by (auto simp add: order_of_def split: option.splits)
  have same: "order_id ord = oid" using f by (auto simp add: find_Some_iff)
  have "find (\<lambda>x. order_id x = oid) (orders w') = Some (set_order_status (order_id ord) new ord)"
    unfolding ords by (rule find_map_preserve[OF f]) simp
  then show b: "order_of w' (t\<lparr>tx_status := st, tx_updatedAt := now E\<rparr>) = Some (ord\<lparr>order_status := new\<rparr>)"
    using oid by (simp add: order_of_def set_order_status_def)
  show "observed_status w' cid = Some (st, new)"
    by (simp add: observed_status_def a b)
qed

subsection \<open>Failures of the notification, and redelivery\<close>


lemma notifyStatusChange_order_gone:
  assumes "truthy (order_userId ord)" "ordersServiceError E (order_id ord) = None"
    "find (\<lambda>x. order_id x = order_id ord) (orders w) = None"
  shows "notifyStatusChange E ord new w
         = (Inr (), w\<lparr>trace := trace w @ [OrdersFindOneById (order_id ord), Logged ERROR]\<rparr>)"
  using assms by (simp add: notifyStatusChange_def exec findOneById_def)



lemma handle_noop:
  assumes secret: "nestConfig E ''PAGSEGURO_WEBHOOK_SECRET'' = Some S" "S \<noteq> []"
    and sg: "sg = hmacSha256Hex E S B"
    and details: "pagSeguro_getCheckoutDetails E cid = Inr d"
    and rd: "prismaReadError E = None"
    and tx: "find (\<lambda>t. tx_gatewayTransactionId t = Some cid) (transactions w) = Some t"
    and ord: "order_of w t = Some ord"
    and same: "tx_status t = orderStatusName (mapPagSeguroStatusToOrderStatus (pagSeguroTransactionStatus d))"
      "order_status ord = mapPagSeguroStatusToOrderStatus (pagSeguroTransactionStatus d)"
  shows "handlePagSeguroNotification E cid sg B w = noop_result w cid"
  using assms by (simp add: handle_exec noop_result_def)

lemma handle_success_valid:
  assumes "fst (handlePagSeguroNotification E cid sg B w) = Inr m"
  obtains S where "nestConfig E ''PAGSEGURO_WEBHOOK_SECRET'' = Some S" "S \<noteq> []"
    "sg = hmacSha256Hex E S B"
proof (cases "truthy (nestConfig E ''PAGSEGURO_WEBHOOK_SECRET'')")
  case False
  with assms show ?thesis by (simp add: handle_secret_missing)
next
  case True
  then obtain S where secret: "nestConfig E ''PAGSEGURO_WEBHOOK_SECRET'' = Some S" "S \<noteq> []"
    by (cases "nestConfig E ''PAGSEGURO_WEBHOOK_SECRET''") auto
  show ?thesis
  proof (cases "sg = hmacSha256Hex E S B")
    case False
    with assms show ?thesis
      by (simp add: handle_bad_signature[OF secret] signature_rejected_def)
  next
    case True
    with secret show ?thesis by (rule that)
  qed
qed

lemma after_successful_delivery:
  assumes first: "handlePagSeguroNotification E cid sg B w = (Inr m, w')"
    and d: "pagSeguro_getCheckoutDetails E cid = Inr d"
  shows "\<exists>t ord. find (\<lambda>t. tx_gatewayTransactionId t = Some cid) (transactions w') = Some t
           \<and> order_of w' t = Some ord
           \<and> tx_status t = orderStatusName (mapPagSeguroStatusToOrderStatus (pagSeguroTransactionStatus d))
           \<and> order_status ord = mapPagSeguroStatusToOrderStatus (pagSeguroTransactionStatus d)"
proof -
  let ?H = "handlePagSeguroNotification E cid sg B w"
  let ?new = "mapPagSeguroStatusToOrderStatus (pagSeguroTransactionStatus d)"
  have f: "fst ?H = Inr m" and s: "snd ?H = w'" using first by simp_all
  from f obtain S where secret: "nestConfig E ''PAGSEGURO_WEBHOOK_SECRET'' = Some S" "S \<noteq> []"
    and sg: "sg = hmacSha256Hex E S B" by (rule handle_success_valid)
  from handle_outcomes[OF secret sg, of cid w] f d
  consider (noop) t ord where
        "find (\<lambda>t. tx_gatewayTransactionId t = Some cid) (transactions w) = Some t"
        "order_of w t = Some ord" "tx_status t = orderStatusName ?new" "order_status ord = ?new"
        "?H = noop_result w cid"
    | (commit) t ord where "prismaReadError E = None"
        "find (\<lambda>t. tx_gatewayTransactionId t = Some cid) (transactions w) = Some t"
        "order_of w t = Some ord"
        "\<not> (tx_status t = orderStatusName ?new \<and> order_status ord = ?new)"
        "transactionUpdateError E = None" "orderUpdateError E = None"
    by auto
  then show ?thesis
  proof cases
    case noop
    from noop(5) s have w': "w' = w\<lparr>trace := trace w @ [Logged LOG, Logged LOG,
        GatewayGetCheckoutDetails cid, TransactionFindFirst cid, Logged LOG]\<rparr>"
      by (simp add: noop_result_def)
    show ?thesis using noop(1-4) by (simp add: w')
  next
    case commit
    note hc = handle_commit[OF secret sg d commit, unfolded s]
    note oc = observed_after_commit[OF commit(2) commit(3) hc(2) hc(3)]
    show ?thesis using oc(1) oc(2) by simp
  qed
qed

subsection \<open>Payment initiation: the checks before the transaction lookup\<close>

lemmas init_exec = exec findOneById_def getExistingPaymentTransaction_def
  transaction_findUnique_def analyzeTransaction_def Let_def rethrow_normalised_def

lemma ensureOrderOwnership_iff:
  "(ensureOrderOwnership ord r = Inr ()) = requester_matches ord r"
  by (auto simp add: ensureOrderOwnership_def requester_matches_def)

lemma ensureOrderOwnership_rejects:
  "\<not> requester_matches ord r \<Longrightarrow> \<exists>m. ensureOrderOwnership ord r = Inl (BadRequestException, m)"
  by (auto simp add: ensureOrderOwnership_def requester_matches_def split: if_splits)

lemma find_order_id: "find (\<lambda>x. order_id x = oid) xs = Some ord \<Longrightarrow> order_id ord = oid"
  by (auto simp add: find_Some_iff)

lemma createPixCharge_not_owner:
  assumes found: "find (\<lambda>x. order_id x = oid) (orders w) = Some ord"
    and mismatch: "\<not> requester_matches ord (Some uid)"
  shows "\<exists>e. fst (createPixCharge E oid uid w) = Inl e
            \<and> (ordersServiceError E oid = None \<longrightarrow> fst e = BadRequestException)"
    and "snd (createPixCharge E oid uid w) = w\<lparr>trace := trace w @ [OrdersFindOneById oid]\<rparr>"
proof -
  obtain m where m: "ensureOrderOwnership ord (Some uid) = Inl (BadRequestException, m)"
    using ensureOrderOwnership_rejects[OF mismatch] by blast
  show "\<exists>e. fst (createPixCharge E oid uid w) = Inl e
            \<and> (ordersServiceError E oid = None \<longrightarrow> fst e = BadRequestException)"
    by (cases "ordersServiceError E oid") (simp_all add: createPixCharge_def init_exec found m)
  show "snd (createPixCharge E oid uid w) = w\<lparr>trace := trace w @ [OrdersFindOneById oid]\<rparr>"
    by (cases "ordersServiceError E oid") (simp_all add: createPixCharge_def init_exec found m)
qed

lemma initiatePagSeguroRedirectCheckout_not_owner:
  assumes found: "find (\<lambda>x. order_id x = oid) (orders w) = Some ord"
    and mismatch: "\<not> requester_matches ord r"
  shows "\<exists>e. fst (initiatePagSeguroRedirectCheckout E r oid w) = Inl e
            \<and> (ordersServiceError E oid = None \<longrightarrow> fst e = BadRequestException)"
    and "snd (initiatePagSeguroRedirectCheckout E r oid w)
         = w\<lparr>trace := trace w @ [OrdersFindOneById oid]\<rparr>"
proof -
  obtain m where m: "ensureOrderOwnership ord r = Inl (BadRequestException, m)"
    using ensureOrderOwnership_rejects[OF mismatch] by blast
  show "\<exists>e. fst (initiatePagSeguroRedirectCheckout E r oid w) = Inl e
            \<and> (ordersServiceError E oid = None \<longrightarrow> fst e = BadRequestException)"
    by (cases "ordersServiceError E oid")
      (simp_all add: initiatePagSeguroRedirectCheckout_def init_exec found m)
  show "snd (initiatePagSeguroRedirectCheckout E r oid w)
         = w\<lparr>trace := trace w @ [OrdersFindOneById oid]\<rparr>"
    by (cases "ordersServiceError E oid")
      (simp_all add: initiatePagSeguroRedirectCheckout_def init_exec found m)
qed

lemma card_incomplete:
  assumes "\<not> truthy (cardToken dto) \<or> \<not> truthy (cardHolderName dto) \<or> \<not> truthy (cardCpf dto)"
  shows "processCreditCardPayment E oid r dto w = (Inl (BadRequestException, msg_card_incomplete), w)"
  using assms by (auto simp add: processCreditCardPayment_def io_throw_def)

lemma processCreditCardPayment_not_owner:
  assumes found: "find (\<lambda>x. order_id x = oid) (orders w) = Some ord"
    and mismatch: "\<not> requester_matches ord r"
  shows "\<exists>e. fst (processCreditCardPayment E oid r dto w) = Inl e
            \<and> (ordersServiceError E oid = None \<longrightarrow> fst e = BadRequestException)"
    and "snd (processCreditCardPayment E oid r dto w)
         = (if truthy (cardToken dto) \<and> truthy (cardHolderName dto) \<and> truthy (cardCpf dto)
            then w\<lparr>trace := trace w @ [OrdersFindOneById oid]\<rparr> else w)"
proof -
  obtain m where m: "ensureOrderOwnership ord r = Inl (BadRequestException, m)"
    using ensureOrderOwnership_rejects[OF mismatch] by blast
  show "\<exists>e. fst (processCreditCardPayment E oid r dto w) = Inl e
            \<and> (ordersServiceError E oid = None \<longrightarrow> fst e = BadRequestException)"
  proof (cases "truthy (cardToken dto) \<and> truthy (cardHolderName dto) \<and> truthy (cardCpf dto)")
    case True
    then show ?thesis
      by (cases "ordersServiceError E oid")
        (simp_all add: processCreditCardPayment_def init_exec found m)
  next
    case False
    then show ?thesis by (simp add: card_incomplete)
  qed
  show "snd (processCreditCardPayment E oid r dto w)
         = (if truthy (cardToken dto) \<and> truthy (cardHolderName dto) \<and> truthy (cardCpf dto)
            then w\<lparr>trace := trace w @ [OrdersFindOneById oid]\<rparr> else w)"
  proof (cases "truthy (cardToken dto) \<and> truthy (cardHolderName dto) \<and> truthy (cardCpf dto)")
    case True
    then show ?thesis
      by (cases "ordersServiceError E oid")
        (simp_all add: processCreditCardPayment_def init_exec found m)
  next
    case False
    then show ?thesis by (simp add: card_incomplete)
  qed
qed

subsection \<open>Rebuilding a response from a stored transaction\<close>








subsection \<open>Payment initiation when the order already has a transaction\<close>

lemma read_only_simps [simp]:
  "read_only (Logged l)" "read_only ConsoleWarn" "read_only (OrdersFindOneById a)"
  "read_only (TransactionFindUnique a)" "read_only (TransactionFindFirst a)"
  "read_only (AntifraudAnalyze a b)" "read_only (GatewayGetCheckoutDetails a)"
  "read_only (GatewayGetOrderDetails a)" "read_only (SendPaymentConfirmationEmail a b)"
  "read_only (SendPaymentCancellationEmail a b)"
  "\<not> read_only (GatewayCreatePixCharge a)" "\<not> read_only (GatewayDirectCreditCard a)"
  "\<not> read_only (GatewayCreateCheckoutRedirect a)" "\<not> read_only (TransactionCreate a)"
  "\<not> read_only (TransactionUpdate a b)" "\<not> read_only (OrderUpdate a st)"
  by (simp_all add: read_only_def)








subsection \<open>After a successful initiation the order has a transaction\<close>








lemma isl_rethrow_normalised [simp]: "isl (fst (rethrow_normalised generic err w))"
  by (simp add: rethrow_normalised_def exec)

lemma snd_rethrow_normalised [simp]:
  "snd (rethrow_normalised generic err w) = w\<lparr>trace := trace w @ [Logged ERROR]\<rparr>"
  by (simp add: rethrow_normalised_def exec)

lemma find_unique_none:
  "find (\<lambda>t. tx_orderId t = Some oid) ts = None
   \<Longrightarrow> find (\<lambda>t. tx_orderId t \<noteq> None \<and> tx_orderId t = Some oid) ts = None"
  by (simp add: find_None_iff)


lemmas new_exec = exec findOneById_def getExistingPaymentTransaction_def
  transaction_findUnique_def analyzeTransaction_def Let_def transaction_create_def
  createPagSeguroPixCharge_def processDirectCreditCardPayment_def
  createPagSeguroCheckoutRedirect_def








lemma ao_notifyCardPaid: "appends_only (notifyCardPaid E ord)"
  unfolding notifyCardPaid_def Let_def by (intro ao_intros)

lemma nt_notifyCardPaid: "never_throws (notifyCardPaid E ord)"
  unfolding notifyCardPaid_def by (intro nt_catch nt_logger)

lemma notifyCardPaid_fst [simp]: "fst (notifyCardPaid E ord w) = Inr ()"
  using nt_notifyCardPaid[of E ord] unfolding never_throws_def by simp

lemma notifyCardPaid_tables [simp]:
  "orders (snd (notifyCardPaid E ord w)) = orders w"
  "transactions (snd (notifyCardPaid E ord w)) = transactions w"
  using appends_onlyD[OF ao_notifyCardPaid] by blast+





lemma createPixCharge_denied:
  assumes svc: "ordersServiceError E oid = None"
    and found: "find (\<lambda>x. order_id x = oid) (orders w) = Some ord"
    and pending: "order_status ord = PENDING"
    and owner: "requester_matches ord (Some uid)"
    and rd: "prismaReadError E = None"
    and none: "find (\<lambda>t. tx_orderId t = Some oid) (transactions w) = None"
    and af: "\<And>inp. antifraud_analyzeTransaction E inp = Inr ''DENIED''"
  shows "createPixCharge E oid uid w
         = (Inl (InternalServerErrorException, msg_pix_failed),
            w\<lparr>trace := trace w @ [OrdersFindOneById oid, TransactionFindUnique oid,
                                    AntifraudAnalyze oid ''PIX'', Logged ERROR]\<rparr>)"
  using assms find_order_id[OF found] ensureOrderOwnership_iff[of ord "Some uid"]
  by (simp add: createPixCharge_def init_exec)

lemma processCreditCardPayment_denied:
  assumes dto: "truthy (cardToken dto)" "truthy (cardHolderName dto)" "truthy (cardCpf dto)"
    and svc: "ordersServiceError E oid = None"
    and found: "find (\<lambda>x. order_id x = oid) (orders w) = Some ord"
    and pending: "order_status ord = PENDING"
    and owner: "requester_matches ord r"
    and rd: "prismaReadError E = None"
    and none: "find (\<lambda>t. tx_orderId t = Some oid) (transactions w) = None"
    and af: "\<And>inp. antifraud_analyzeTransaction E inp = Inr ''DENIED''"
  shows "processCreditCardPayment E oid r dto w
         = (Inl (InternalServerErrorException, msg_card_failed),
            w\<lparr>trace := trace w @ [OrdersFindOneById oid, TransactionFindUnique oid,
                                    AntifraudAnalyze oid ''CREDIT_CARD'', Logged ERROR]\<rparr>)"
  using assms find_order_id[OF found] ensureOrderOwnership_iff[of ord r]
  by (simp add: processCreditCardPayment_def init_exec)

lemma initiatePagSeguroRedirectCheckout_denied:
  assumes svc: "ordersServiceError E oid = None"
    and found: "find (\<lambda>x. order_id x = oid) (orders w) = Some ord"
    and pending: "order_status ord = PENDING"
    and owner: "requester_matches ord r"
    and rd: "prismaReadError E = None"
    and none: "find (\<lambda>t. tx_orderId t = Some oid) (transactions w) = None"
    and af: "\<And>inp. antifraud_analyzeTransaction E inp = Inr ''DENIED''"
  shows "initiatePagSeguroRedirectCheckout E r oid w
         = (Inl (InternalServerErrorException, msg_redirect_failed),
            w\<lparr>trace := trace w @ [OrdersFindOneById oid, TransactionFindUnique oid,
                                    AntifraudAnalyze oid ''REDIRECT_CHECKOUT'', Logged ERROR]\<rparr>)"
  using assms find_order_id[OF found] ensureOrderOwnership_iff[of ord r]
  by (simp add: initiatePagSeguroRedirectCheckout_def init_exec)


lemma gp_orderId_gateway_payload [simp]:
  "gp_orderId (gateway_payload ord built cardDetails) = order_id ord"
  by (simp add: gateway_payload_def split: prod.split)

lemma notifyCardPaid_trace:
  "trace (snd (notifyCardPaid E ord w)) = trace w @ new_events w (snd (notifyCardPaid E ord w))"
proof -
  obtain evs where "trace (snd (notifyCardPaid E ord w)) = trace w @ evs"
    using appends_onlyD[OF ao_notifyCardPaid] by blast
  then show ?thesis by (simp add: new_events_def)
qed

lemma createPixCharge_approved:
  assumes svc: "ordersServiceError E oid = None"
    and found: "find (\<lambda>x. order_id x = oid) (orders w) = Some ord"
    and pending: "order_status ord = PENDING"
    and owner: "requester_matches ord (Some uid)"
    and rd: "prismaReadError E = None"
    and none: "find (\<lambda>t. tx_orderId t = Some oid) (transactions w) = None"
    and af: "\<And>inp. antifraud_analyzeTransaction E inp = Inr verdict"
    and go: "verdict \<noteq> ''DENIED''" "backendUrl E \<noteq> []"
  shows "take 4 (new_events w (snd (createPixCharge E oid uid w)))
         = [OrdersFindOneById oid, TransactionFindUnique oid, AntifraudAnalyze oid ''PIX'',
            GatewayCreatePixCharge oid]"
proof -
  note path = svc found pending owner rd none find_unique_none[OF none] af go
    find_order_id[OF found] ensureOrderOwnership_iff[of ord "Some uid"]
  show ?thesis
  proof (cases "pagSeguro_createPagSeguroPixCharge E
                  (gateway_payload ord (buildPagSeguroPayload ord) None) (backendUrl E)")
    case (Inl e)
    then show ?thesis using path by (simp add: createPixCharge_def new_exec new_events_def)
  next
    case (Inr resp)
    then show ?thesis using path
      by (cases "transactionCreateError E")
        (simp_all add: createPixCharge_def new_exec new_events_def)
  qed
qed

lemma initiatePagSeguroRedirectCheckout_approved:
  assumes svc: "ordersServiceError E oid = None"
    and found: "find (\<lambda>x. order_id x = oid) (orders w) = Some ord"
    and pending: "order_status ord = PENDING"
    and owner: "requester_matches ord r"
    and rd: "prismaReadError E = None"
    and none: "find (\<lambda>t. tx_orderId t = Some oid) (transactions w) = None"
    and af: "\<And>inp. antifraud_analyzeTransaction E inp = Inr verdict"
    and go: "verdict \<noteq> ''DENIED''" "backendUrl E \<noteq> []"
  shows "take 4 (new_events w (snd (initiatePagSeguroRedirectCheckout E r oid w)))
         = [OrdersFindOneById oid, TransactionFindUnique oid,
            AntifraudAnalyze oid ''REDIRECT_CHECKOUT'', GatewayCreateCheckoutRedirect oid]"
proof -
  note path = svc found pending owner rd none find_unique_none[OF none] af go
    find_order_id[OF found] ensureOrderOwnership_iff[of ord r]
  show ?thesis
  proof (cases "pagSeguro_createPagSeguroCheckoutRedirect E
                  (gateway_payload ord (buildPagSeguroPayload ord) None) (backendUrl E)")
    case (Inl e)
    then show ?thesis using path
      by (simp add: initiatePagSeguroRedirectCheckout_def new_exec new_events_def)
  next
    case (Inr resp)
    then show ?thesis using path
      by (cases "transactionCreateError E")
        (simp_all add: initiatePagSeguroRedirectCheckout_def new_exec new_events_def)
  qed
qed

lemma processCreditCardPayment_approved:
  assumes dto: "truthy (cardToken dto)" "truthy (cardHolderName dto)" "truthy (cardCpf dto)"
    and svc: "ordersServiceError E oid = None"
    and found: "find (\<lambda>x. order_id x = oid) (orders w) = Some ord"
    and pending: "order_status ord = PENDING"
    and owner: "requester_matches ord r"
    and rd: "prismaReadError E = None"
    and none: "find (\<lambda>t. tx_orderId t = Some oid) (transactions w) = None"
    and af: "\<And>inp. antifraud_analyzeTransaction E inp = Inr verdict"
    and go: "verdict \<noteq> ''DENIED''" "backendUrl E \<noteq> []"
  shows "take 4 (new_events w (snd (processCreditCardPayment E oid r dto w)))
         = [OrdersFindOneById oid, TransactionFindUnique oid,
            AntifraudAnalyze oid ''CREDIT_CARD'', GatewayDirectCreditCard oid]"
proof -
  note path = dto svc found pending owner rd none find_unique_none[OF none] af go
    find_order_id[OF found] ensureOrderOwnership_iff[of ord r]
  show ?thesis
  proof (cases "pagSeguro_processDirectCreditCardPayment E
                 (gateway_payload ord (buildPagSeguroPayload ord)
                    (Some \<lparr>card_token = nullish_default (cardToken dto) [],
                           card_holderName = nullish_default (cardHolderName dto) [],
                           card_cpf = nullish_default (cardCpf dto) [],
                           card_installments = cardInstallments dto\<rparr>))
                 (backendUrl E)")
    case (Inl e)
    then show ?thesis using path
      by (simp add: processCreditCardPayment_def new_exec new_events_def)
  next
    case (Inr resp)
    note gw = this
    show ?thesis
    proof (cases "transactionCreateError E")
      case (Some e)
      then show ?thesis using path gw
        by (simp add: processCreditCardPayment_def new_exec new_events_def)
    next
      case None
      note tc = this
      show ?thesis
      proof (cases "cg_status resp = ''PAID''")
        case False
        then show ?thesis using path gw tc
          by (simp add: processCreditCardPayment_def new_exec new_events_def)
      next
        case True
        then show ?thesis using path gw tc
          by (cases "orderUpdateError E")
            (simp_all add: processCreditCardPayment_def new_exec new_events_def[of w]
               order_update_def notifyCardPaid_trace)
      qed
    qed
  qed
qed

subsection \<open>Calling an initiation operation again\<close>












section \<open>Properties\<close>

text \<open>
  C2. \<open>mapPagSeguroStatusToOrderStatus\<close> realises exactly the literal table:
  PAID and APPROVED give PAID; IN_ANALYSIS and PENDING give PENDING; CANCELED
  and ABORTED give CANCELLED; REFUNDED and SHIPPED give SHIPPED; DELIVERED
  gives DELIVERED; every other string gives PENDING.
\<close>

theorem mapPagSeguroStatusToOrderStatus_table:
  "mapPagSeguroStatusToOrderStatus s = spec_status_lookup s"
  by (simp add: mapPagSeguroStatusToOrderStatus.simps spec_status_lookup_def
        spec_status_table_def)

text \<open>
  C1. With a configured secret \<open>S\<close>, \<open>handlePagSeguroNotification\<close> on body
  \<open>B\<close> and signature \<open>sg\<close> goes on only when \<open>sg\<close> is the hex HMAC-SHA256
  of \<open>B\<close> under \<open>S\<close>: any other signature ends in Unauthorized with the
  tables untouched and a call log of two log lines, so before the gateway
  lookup, the transaction lookup and any write; a valid signature is not
  rejected and its third call is the gateway lookup. Hence a changed signature
  is rejected, and so is a changed body, whose digest no longer equals the
  signature. The HMAC itself is Node's; for it the digest of a changed body
  differs save for a collision.
\<close>


theorem webhook_signature_gate:
  assumes "nestConfig E ''PAGSEGURO_WEBHOOK_SECRET'' = Some S" and "S \<noteq> []"
  shows "(sg \<noteq> hmacSha256Hex E S B \<longrightarrow>
            handlePagSeguroNotification E cid sg B w = signature_rejected w)
       \<and> (sg = hmacSha256Hex E S B \<longrightarrow>
            handlePagSeguroNotification E cid sg B w \<noteq> signature_rejected w
            \<and> take 3 (new_events w (snd (handlePagSeguroNotification E cid sg B w)))
                = [Logged LOG, Logged LOG, GatewayGetCheckoutDetails cid])
       \<and> (sg = hmacSha256Hex E S B \<and> sg' \<noteq> sg \<longrightarrow>
            handlePagSeguroNotification E cid sg' B w = signature_rejected w)
       \<and> (sg = hmacSha256Hex E S B \<and> hmacSha256Hex E S B' \<noteq> hmacSha256Hex E S B \<longrightarrow>
            handlePagSeguroNotification E cid sg B' w = signature_rejected w)"
proof (intro conjI impI)
  assume "sg \<noteq> hmacSha256Hex E S B"
  then show "handlePagSeguroNotification E cid sg B w = signature_rejected w"
    by (rule handle_bad_signature[OF assms])
next
  assume sg: "sg = hmacSha256Hex E S B"
  show 3: "take 3 (new_events w (snd (handlePagSeguroNotification E cid sg B w)))
          = [Logged LOG, Logged LOG, GatewayGetCheckoutDetails cid]"
    by (rule good_signature_proceeds[OF assms sg])
  show "handlePagSeguroNotification E cid sg B w \<noteq> signature_rejected w"
  proof
    assume "handlePagSeguroNotification E cid sg B w = signature_rejected w"
    with 3 show False by (simp add: rejected_events)
  qed
next
  assume "sg = hmacSha256Hex E S B \<and> sg' \<noteq> sg"
  then have "sg' \<noteq> hmacSha256Hex E S B" by auto
  then show "handlePagSeguroNotification E cid sg' B w = signature_rejected w"
    by (rule handle_bad_signature[OF assms])
next
  assume "sg = hmacSha256Hex E S B \<and> hmacSha256Hex E S B' \<noteq> hmacSha256Hex E S B"
  then have "sg \<noteq> hmacSha256Hex E S B'" by auto
  then show "handlePagSeguroNotification E cid sg B' w = signature_rejected w"
    by (rule handle_bad_signature[OF assms])
qed

theorem webhook_signature_gate_witness:
  "handlePagSeguroNotification ex_env ''tx1'' ''forged'' ''body'' ex_world_tx
     = signature_rejected ex_world_tx
   \<and> handlePagSeguroNotification ex_env ''tx1'' ''whsecbody'' ''body'' ex_world_tx
     \<noteq> signature_rejected ex_world_tx
   \<and> take 3 (new_events ex_world_tx
        (snd (handlePagSeguroNotification ex_env ''tx1'' ''whsecbody'' ''body'' ex_world_tx)))
     = [Logged LOG, Logged LOG, GatewayGetCheckoutDetails ''tx1'']
   \<and> handlePagSeguroNotification ex_env ''tx1'' ''whsecbodY'' ''body'' ex_world_tx
     = signature_rejected ex_world_tx
   \<and> handlePagSeguroNotification ex_env ''tx1'' ''whsecbody'' ''bodY'' ex_world_tx
     = signature_rejected ex_world_tx"
proof -
  have s: "nestConfig ex_env ''PAGSEGURO_WEBHOOK_SECRET'' = Some ''whsec''" "''whsec'' \<noteq> []"
    by (simp_all add: ex_env_def ex_config_def)
  have h: "hmacSha256Hex ex_env ''whsec'' ''body'' = ''whsecbody''"
    "hmacSha256Hex ex_env ''whsec'' ''bodY'' = ''whsecbodY''"
    by (simp_all add: ex_env_def)
  from webhook_signature_gate[OF s, of "''forged''" "''body''" "''tx1''" ex_world_tx]
  have 1: "handlePagSeguroNotification ex_env ''tx1'' ''forged'' ''body'' ex_world_tx
     = signature_rejected ex_world_tx" by (simp add: h)
  from webhook_signature_gate[OF s, of "''whsecbody''" "''body''" "''tx1''" ex_world_tx "''whsecbodY''" "''bodY''"]
  have 2: "handlePagSeguroNotification ex_env ''tx1'' ''whsecbody'' ''body'' ex_world_tx
     \<noteq> signature_rejected ex_world_tx"
    "take 3 (new_events ex_world_tx
        (snd (handlePagSeguroNotification ex_env ''tx1'' ''whsecbody'' ''body'' ex_world_tx)))
     = [Logged LOG, Logged LOG, GatewayGetCheckoutDetails ''tx1'']"
    "handlePagSeguroNotification ex_env ''tx1'' ''whsecbodY'' ''body'' ex_world_tx
     = signature_rejected ex_world_tx"
    "handlePagSeguroNotification ex_env ''tx1'' ''whsecbody'' ''bodY'' ex_world_tx
     = signature_rejected ex_world_tx" by (simp_all add: h)
  from 1 2 show ?thesis by simp
qed







text \<open>
  C5. A verified webhook that computes a canonical status equal to both the
  stored \<open>Transaction.status\<close> and the \<open>Order.status\<close> returns the no-op
  success, with the tables untouched and no write in the call log. Therefore,
  in the state left by any earlier successful delivery that computed the same
  status, the delivery is a no-op, and the transaction and its order read that
  one status before and after it.
\<close>

theorem webhook_redelivery_is_noop:
  assumes secret: "nestConfig E ''PAGSEGURO_WEBHOOK_SECRET'' = Some S" "S \<noteq> []"
    and sg: "sg = hmacSha256Hex E S B"
    and details: "pagSeguro_getCheckoutDetails E cid = Inr d"
    and rd: "prismaReadError E = None"
    and new: "new = mapPagSeguroStatusToOrderStatus (pagSeguroTransactionStatus d)"
  shows "(find (\<lambda>t. tx_gatewayTransactionId t = Some cid) (transactions w) = Some t
            \<and> order_of w t = Some ord \<and> tx_status t = orderStatusName new
            \<and> order_status ord = new
          \<longrightarrow> handlePagSeguroNotification E cid sg B w = noop_result w cid)
       \<and> (handlePagSeguroNotification E1 cid sg1 B1 w1 = (Inr m1, w)
            \<and> pagSeguro_getCheckoutDetails E1 cid = Inr d1
            \<and> mapPagSeguroStatusToOrderStatus (pagSeguroTransactionStatus d1) = new
          \<longrightarrow> handlePagSeguroNotification E cid sg B w = noop_result w cid
              \<and> observed_status w cid = Some (orderStatusName new, new)
              \<and> observed_status (snd (handlePagSeguroNotification E cid sg B w)) cid
                  = Some (orderStatusName new, new))"
proof (intro conjI impI)
  assume "find (\<lambda>t. tx_gatewayTransactionId t = Some cid) (transactions w) = Some t
            \<and> order_of w t = Some ord \<and> tx_status t = orderStatusName new
            \<and> order_status ord = new"
  then show "handlePagSeguroNotification E cid sg B w = noop_result w cid"
    using handle_noop[OF secret sg details rd, of w t ord] new by simp
next
  assume a: "handlePagSeguroNotification E1 cid sg1 B1 w1 = (Inr m1, w)
            \<and> pagSeguro_getCheckoutDetails E1 cid = Inr d1
            \<and> mapPagSeguroStatusToOrderStatus (pagSeguroTransactionStatus d1) = new"
  then obtain t' ord' where
    t': "find (\<lambda>t. tx_gatewayTransactionId t = Some cid) (transactions w) = Some t'"
    and o': "order_of w t' = Some ord'"
    and st: "tx_status t' = orderStatusName new" "order_status ord' = new"
    using after_successful_delivery[of E1 cid sg1 B1 w1 m1 w d1] by auto
  show n: "handlePagSeguroNotification E cid sg B w = noop_result w cid"
    using handle_noop[OF secret sg details rd t' o'] st new by simp
  show o: "observed_status w cid = Some (orderStatusName new, new)"
    by (simp add: observed_status_def t' o' st)
  have "observed_status (snd (noop_result w cid)) cid = observed_status w cid"
    by (rule observed_status_tables) (simp_all add: noop_result_def)
  with o n show "observed_status (snd (handlePagSeguroNotification E cid sg B w)) cid
                  = Some (orderStatusName new, new)"
    by simp
qed


theorem webhook_redelivery_is_noop_witness:
  "fst (handlePagSeguroNotification ex_env ''tx1'' ''whsecbody'' ''body'' ex_world_tx)
     = Inr msg_updated
   \<and> handlePagSeguroNotification ex_env ''tx1'' ''whsecbody'' ''body''
       (snd (handlePagSeguroNotification ex_env ''tx1'' ''whsecbody'' ''body'' ex_world_tx))
     = noop_result
         (snd (handlePagSeguroNotification ex_env ''tx1'' ''whsecbody'' ''body'' ex_world_tx))
         ''tx1''
   \<and> observed_status
         (snd (handlePagSeguroNotification ex_env ''tx1'' ''whsecbody'' ''body''
            (snd (handlePagSeguroNotification ex_env ''tx1'' ''whsecbody'' ''body'' ex_world_tx))))
         ''tx1'' = Some (''PAID'', PAID)"
proof -
  let ?H1 = "handlePagSeguroNotification ex_env ''tx1'' ''whsecbody'' ''body'' ex_world_tx"
  have secret: "nestConfig ex_env ''PAGSEGURO_WEBHOOK_SECRET'' = Some ''whsec''" "''whsec'' \<noteq> []"
    by (simp_all add: ex_defs)
  have sg: "''whsecbody'' = hmacSha256Hex ex_env ''whsec'' ''body''"
    by (simp add: ex_defs)
  have details: "pagSeguro_getCheckoutDetails ex_env ''tx1'' = Inr ex_checkout"
    by (simp add: ex_env_def)
  have rd: "prismaReadError ex_env = None"
    by (simp add: ex_env_def)
  have new: "PAID = mapPagSeguroStatusToOrderStatus (pagSeguroTransactionStatus ex_checkout)"
    by (simp add: ex_checkout_def pagSeguroTransactionStatus_def or_else_def opt_field_def
          mapPagSeguroStatusToOrderStatus.simps)
  have 1: "fst ?H1 = Inr msg_updated"
    by (simp add: handle_exec ex_defs pagSeguroTransactionStatus_def or_else_def opt_field_def
          mapPagSeguroStatusToOrderStatus.simps order_of_def)
  then have first: "?H1 = (Inr msg_updated, snd ?H1)"
    by (simp add: prod_eq_iff)
  note inst = webhook_redelivery_is_noop[OF secret sg details rd new,
      of "snd ?H1" _ _ ex_env "''whsecbody''" "''body''" ex_world_tx msg_updated ex_checkout]
  from inst first details new[symmetric]
  have 2: "handlePagSeguroNotification ex_env ''tx1'' ''whsecbody'' ''body'' (snd ?H1)
          = noop_result (snd ?H1) ''tx1''"
    by blast
  from inst first details new[symmetric]
  have 3: "observed_status
             (snd (handlePagSeguroNotification ex_env ''tx1'' ''whsecbody'' ''body'' (snd ?H1)))
             ''tx1'' = Some (orderStatusName PAID, PAID)"
    by blast
  from 1 2 3 show ?thesis by simp
qed

text \<open>
  C7. \<open>ensureOrderOwnership\<close> passes exactly when the requester matches the
  order by the rule of the specification: the \<open>userId\<close> if the order has one,
  else the \<open>guestId\<close>, which must then be set. An absent requester never
  matches, nor does any requester an order with neither identifier. In each of
  the three initiation methods a requester that does not match the stored
  order is rejected (with BadRequest unless the orders service itself failed),
  and the method has by then done nothing but look the order up: no
  transaction lookup, no antifraud call, no gateway call, no write.
\<close>
theorem ownership_enforced:
  "((ensureOrderOwnership ord r = Inr ()) = requester_matches ord r)
   \<and> \<not> requester_matches ord None
   \<and> (\<not> truthy (order_userId ord) \<and> \<not> truthy (order_guestId ord) \<longrightarrow> \<not> requester_matches ord r)
   \<and> (find (\<lambda>x. order_id x = oid) (orders w) = Some ord \<and> \<not> requester_matches ord r \<longrightarrow>
         (r = Some uid \<longrightarrow>
            (\<exists>e. fst (createPixCharge E oid uid w) = Inl e
                \<and> (ordersServiceError E oid = None \<longrightarrow> fst e = BadRequestException))
            \<and> snd (createPixCharge E oid uid w) = w\<lparr>trace := trace w @ [OrdersFindOneById oid]\<rparr>)
       \<and> (\<exists>e. fst (processCreditCardPayment E oid r dto w) = Inl e
                \<and> (ordersServiceError E oid = None \<longrightarrow> fst e = BadRequestException))
       \<and> snd (processCreditCardPayment E oid r dto w)
           = (if truthy (cardToken dto) \<and> truthy (cardHolderName dto) \<and> truthy (cardCpf dto)
              then w\<lparr>trace := trace w @ [OrdersFindOneById oid]\<rparr> else w)
       \<and> (\<exists>e. fst (initiatePagSeguroRedirectCheckout E r oid w) = Inl e
                \<and> (ordersServiceError E oid = None \<longrightarrow> fst e = BadRequestException))
       \<and> snd (initiatePagSeguroRedirectCheckout E r oid w)
           = w\<lparr>trace := trace w @ [OrdersFindOneById oid]\<rparr>)"
proof (intro conjI impI)
  show "(ensureOrderOwnership ord r = Inr ()) = requester_matches ord r"
    by (rule ensureOrderOwnership_iff)
  show "\<not> requester_matches ord None"
    by (cases "order_userId ord"; cases "order_guestId ord") (simp_all add: requester_matches_def)
  show "\<not> requester_matches ord r"
    if "\<not> truthy (order_userId ord) \<and> \<not> truthy (order_guestId ord)"
    using that by (simp add: requester_matches_def)
next
  assume a: "find (\<lambda>x. order_id x = oid) (orders w) = Some ord \<and> \<not> requester_matches ord r"
  then have found: "find (\<lambda>x. order_id x = oid) (orders w) = Some ord"
    and mismatch: "\<not> requester_matches ord r" by simp_all
  show "\<exists>e. fst (processCreditCardPayment E oid r dto w) = Inl e
                \<and> (ordersServiceError E oid = None \<longrightarrow> fst e = BadRequestException)"
    by (rule processCreditCardPayment_not_owner(1)[OF found mismatch])
  show "snd (processCreditCardPayment E oid r dto w)
           = (if truthy (cardToken dto) \<and> truthy (cardHolderName dto) \<and> truthy (cardCpf dto)
              then w\<lparr>trace := trace w @ [OrdersFindOneById oid]\<rparr> else w)"
    by (rule processCreditCardPayment_not_owner(2)[OF found mismatch])
  show "\<exists>e. fst (initiatePagSeguroRedirectCheckout E r oid w) = Inl e
                \<and> (ordersServiceError E oid = None \<longrightarrow> fst e = BadRequestException)"
    by (rule initiatePagSeguroRedirectCheckout_not_owner(1)[OF found mismatch])
  show "snd (initiatePagSeguroRedirectCheckout E r oid w)
           = w\<lparr>trace := trace w @ [OrdersFindOneById oid]\<rparr>"
    by (rule initiatePagSeguroRedirectCheckout_not_owner(2)[OF found mismatch])
  assume r: "r = Some uid"
  show "\<exists>e. fst (createPixCharge E oid uid w) = Inl e
                \<and> (ordersServiceError E oid = None \<longrightarrow> fst e = BadRequestException)"
    by (rule createPixCharge_not_owner(1)[OF found mismatch[unfolded r]])
  show "snd (createPixCharge E oid uid w) = w\<lparr>trace := trace w @ [OrdersFindOneById oid]\<rparr>"
    by (rule createPixCharge_not_owner(2)[OF found mismatch[unfolded r]])
qed

theorem ownership_enforced_witness:
  "ensureOrderOwnership ex_order (Some ''u1'') = Inr ()
   \<and> isl (fst (createPixCharge ex_env ''o1'' ''u2'' ex_world))
   \<and> snd (createPixCharge ex_env ''o1'' ''u2'' ex_world)
       = ex_world\<lparr>trace := trace ex_world @ [OrdersFindOneById ''o1'']\<rparr>
   \<and> isl (fst (processCreditCardPayment ex_env ''o1'' (Some ''u2'') ex_dto ex_world))
   \<and> snd (processCreditCardPayment ex_env ''o1'' (Some ''u2'') ex_dto ex_world)
       = ex_world\<lparr>trace := trace ex_world @ [OrdersFindOneById ''o1'']\<rparr>
   \<and> isl (fst (initiatePagSeguroRedirectCheckout ex_env (Some ''u2'') ''o1'' ex_world))
   \<and> snd (initiatePagSeguroRedirectCheckout ex_env (Some ''u2'') ''o1'' ex_world)
       = ex_world\<lparr>trace := trace ex_world @ [OrdersFindOneById ''o1'']\<rparr>"
proof -
  have found: "find (\<lambda>x. order_id x = ''o1'') (orders ex_world) = Some ex_order"
    by (simp add: ex_world_def ex_order_def)
  have ok: "requester_matches ex_order (Some ''u1'')"
    by (simp add: requester_matches_def ex_order_def)
  have bad: "\<not> requester_matches ex_order (Some ''u2'')"
    by (simp add: requester_matches_def ex_order_def)
  have dto: "truthy (cardToken ex_dto) \<and> truthy (cardHolderName ex_dto) \<and> truthy (cardCpf ex_dto)"
    by (simp add: ex_dto_def)
  note a = ownership_enforced[of ex_order "Some ''u1''" "''o1''" ex_world "''u1''" ex_env ex_dto]
  note b = ownership_enforced[of ex_order "Some ''u2''" "''o1''" ex_world "''u2''" ex_env ex_dto]
  from a ok have 1: "ensureOrderOwnership ex_order (Some ''u1'') = Inr ()" by blast
  from b found bad have 2: "\<exists>e. fst (createPixCharge ex_env ''o1'' ''u2'' ex_world) = Inl e"
    and 3: "snd (createPixCharge ex_env ''o1'' ''u2'' ex_world)
       = ex_world\<lparr>trace := trace ex_world @ [OrdersFindOneById ''o1'']\<rparr>"
    and 4: "\<exists>e. fst (processCreditCardPayment ex_env ''o1'' (Some ''u2'') ex_dto ex_world) = Inl e"
    and 5: "snd (processCreditCardPayment ex_env ''o1'' (Some ''u2'') ex_dto ex_world)
       = (if truthy (cardToken ex_dto) \<and> truthy (cardHolderName ex_dto) \<and> truthy (cardCpf ex_dto)
          then ex_world\<lparr>trace := trace ex_world @ [OrdersFindOneById ''o1'']\<rparr> else ex_world)"
    and 6: "\<exists>e. fst (initiatePagSeguroRedirectCheckout ex_env (Some ''u2'') ''o1'' ex_world) = Inl e"
    and 7: "snd (initiatePagSeguroRedirectCheckout ex_env (Some ''u2'') ''o1'' ex_world)
       = ex_world\<lparr>trace := trace ex_world @ [OrdersFindOneById ''o1'']\<rparr>"
    by blast+
  from 2 4 6 have "isl (fst (createPixCharge ex_env ''o1'' ''u2'' ex_world))"
    "isl (fst (processCreditCardPayment ex_env ''o1'' (Some ''u2'') ex_dto ex_world))"
    "isl (fst (initiatePagSeguroRedirectCheckout ex_env (Some ''u2'') ''o1'' ex_world))"
    by auto
  with 1 3 5 7 dto show ?thesis by simp
qed

text \<open>
  C10. \<open>processCreditCardPayment\<close> with \<open>cardToken\<close>, \<open>cardHolderName\<close> or
  \<open>cardCpf\<close> absent (or empty) fails with BadRequest and leaves the state,
  call log included, exactly as it was: the order is not loaded, and no
  ownership check, antifraud call, gateway call or write takes place.
\<close>
theorem card_data_checked_first:
  assumes "\<not> truthy (cardToken dto) \<or> \<not> truthy (cardHolderName dto) \<or> \<not> truthy (cardCpf dto)"
  shows "processCreditCardPayment E orderId userId dto w
         = (Inl (BadRequestException, msg_card_incomplete), w)"
  using assms by (rule card_incomplete)

theorem card_data_checked_first_witness:
  "processCreditCardPayment ex_env ''o1'' (Some ''u1'') (ex_dto\<lparr>cardCpf := None\<rparr>) ex_world
     = (Inl (BadRequestException, msg_card_incomplete), ex_world)
   \<and> processCreditCardPayment ex_env ''o1'' (Some ''u1'') (ex_dto\<lparr>cardToken := Some []\<rparr>) ex_world
     = (Inl (BadRequestException, msg_card_incomplete), ex_world)
   \<and> trace ex_world = []"
proof -
  have 1: "\<not> truthy (cardToken (ex_dto\<lparr>cardCpf := None\<rparr>))
        \<or> \<not> truthy (cardHolderName (ex_dto\<lparr>cardCpf := None\<rparr>))
        \<or> \<not> truthy (cardCpf (ex_dto\<lparr>cardCpf := None\<rparr>))" by simp
  have 2: "\<not> truthy (cardToken (ex_dto\<lparr>cardToken := Some []\<rparr>))
        \<or> \<not> truthy (cardHolderName (ex_dto\<lparr>cardToken := Some []\<rparr>))
        \<or> \<not> truthy (cardCpf (ex_dto\<lparr>cardToken := Some []\<rparr>))" by simp
  from card_data_checked_first[OF 1] card_data_checked_first[OF 2]
  show ?thesis by (simp add: ex_world_def)
qed




text \<open>
  C4. Antifraud gating in \<open>createPixCharge\<close>, \<open>processCreditCardPayment\<close> and
  \<open>initiatePagSeguroRedirectCheckout\<close>, for a pending order of the requester
  without a Transaction. With the verdict DENIED the call log of each
  operation is exactly: order load, Transaction lookup, antifraud call, one
  error log; so no gateway-create call is made and no Transaction is created.
  The BadRequest raised for the denial is thrown inside the \<open>try\<close> block of the
  operation, whose \<open>catch\<close> clause replaces every error other than an
  InternalServerError starting with \<open>Falha no PagSeguro:\<close> by the generic
  InternalServerError of the operation: the caller receives that
  InternalServerError, not the BadRequest with the denial message. With any
  other verdict and a configured backend URL, the call following the antifraud
  call is the gateway-create call.
\<close>
theorem antifraud_gate:
  assumes svc: "ordersServiceError E oid = None"
    and found: "find (\<lambda>x. order_id x = oid) (orders w) = Some ord"
    and pending: "order_status ord = PENDING"
    and rd: "prismaReadError E = None"
    and none: "find (\<lambda>t. tx_orderId t = Some oid) (transactions w) = None"
    and af: "\<And>inp. antifraud_analyzeTransaction E inp = Inr verdict"
    and dto: "truthy (cardToken dto)" "truthy (cardHolderName dto)" "truthy (cardCpf dto)"
    and owner: "requester_matches ord r" "r = Some uid"
  shows "(verdict = ''DENIED'' \<longrightarrow>
            createPixCharge E oid uid w
              = (Inl (InternalServerErrorException, msg_pix_failed),
                 w\<lparr>trace := trace w @ [OrdersFindOneById oid, TransactionFindUnique oid,
                                         AntifraudAnalyze oid ''PIX'', Logged ERROR]\<rparr>)
          \<and> processCreditCardPayment E oid r dto w
              = (Inl (InternalServerErrorException, msg_card_failed),
                 w\<lparr>trace := trace w @ [OrdersFindOneById oid, TransactionFindUnique oid,
                                         AntifraudAnalyze oid ''CREDIT_CARD'', Logged ERROR]\<rparr>)
          \<and> initiatePagSeguroRedirectCheckout E r oid w
              = (Inl (InternalServerErrorException, msg_redirect_failed),
                 w\<lparr>trace := trace w @ [OrdersFindOneById oid, TransactionFindUnique oid,
                                         AntifraudAnalyze oid ''REDIRECT_CHECKOUT'', Logged ERROR]\<rparr>))
       \<and> (verdict \<noteq> ''DENIED'' \<and> backendUrl E \<noteq> [] \<longrightarrow>
            take 4 (new_events w (snd (createPixCharge E oid uid w)))
              = [OrdersFindOneById oid, TransactionFindUnique oid, AntifraudAnalyze oid ''PIX'',
                 GatewayCreatePixCharge oid]
          \<and> take 4 (new_events w (snd (processCreditCardPayment E oid r dto w)))
              = [OrdersFindOneById oid, TransactionFindUnique oid,
                 AntifraudAnalyze oid ''CREDIT_CARD'', GatewayDirectCreditCard oid]
          \<and> take 4 (new_events w (snd (initiatePagSeguroRedirectCheckout E r oid w)))
              = [OrdersFindOneById oid, TransactionFindUnique oid,
                 AntifraudAnalyze oid ''REDIRECT_CHECKOUT'', GatewayCreateCheckoutRedirect oid])"
proof (intro conjI impI)
  note owner_pix = owner(1)[unfolded owner(2)]
  {
    assume d: "verdict = ''DENIED''"
    show "createPixCharge E oid uid w
              = (Inl (InternalServerErrorException, msg_pix_failed),
                 w\<lparr>trace := trace w @ [OrdersFindOneById oid, TransactionFindUnique oid,
                                         AntifraudAnalyze oid ''PIX'', Logged ERROR]\<rparr>)"
      by (rule createPixCharge_denied[OF svc found pending owner_pix rd none af[unfolded d]])
    show "processCreditCardPayment E oid r dto w
              = (Inl (InternalServerErrorException, msg_card_failed),
                 w\<lparr>trace := trace w @ [OrdersFindOneById oid, TransactionFindUnique oid,
                                         AntifraudAnalyze oid ''CREDIT_CARD'', Logged ERROR]\<rparr>)"
      by (rule processCreditCardPayment_denied[OF dto svc found pending owner(1) rd none
            af[unfolded d]])
    show "initiatePagSeguroRedirectCheckout E r oid w
              = (Inl (InternalServerErrorException, msg_redirect_failed),
                 w\<lparr>trace := trace w @ [OrdersFindOneById oid, TransactionFindUnique oid,
                                         AntifraudAnalyze oid ''REDIRECT_CHECKOUT'', Logged ERROR]\<rparr>)"
      by (rule initiatePagSeguroRedirectCheckout_denied[OF svc found pending owner(1) rd none
            af[unfolded d]])
  }
  {
    assume "verdict \<noteq> ''DENIED'' \<and> backendUrl E \<noteq> []"
    then have go: "verdict \<noteq> ''DENIED''" "backendUrl E \<noteq> []" by simp_all
    show "take 4 (new_events w (snd (createPixCharge E oid uid w)))
              = [OrdersFindOneById oid, TransactionFindUnique oid, AntifraudAnalyze oid ''PIX'',
                 GatewayCreatePixCharge oid]"
      by (rule createPixCharge_approved[OF svc found pending owner_pix rd none af go])
    show "take 4 (new_events w (snd (processCreditCardPayment E oid r dto w)))
              = [OrdersFindOneById oid, TransactionFindUnique oid,
                 AntifraudAnalyze oid ''CREDIT_CARD'', GatewayDirectCreditCard oid]"
      by (rule processCreditCardPayment_approved[OF dto svc found pending owner(1) rd none af go])
    show "take 4 (new_events w (snd (initiatePagSeguroRedirectCheckout E r oid w)))
              = [OrdersFindOneById oid, TransactionFindUnique oid,
                 AntifraudAnalyze oid ''REDIRECT_CHECKOUT'', GatewayCreateCheckoutRedirect oid]"
      by (rule initiatePagSeguroRedirectCheckout_approved[OF svc found pending owner(1) rd none
            af go])
  }
qed


theorem antifraud_gate_witness:
  "createPixCharge ex_env_denied ''o1'' ''u1'' ex_world
     = (Inl (InternalServerErrorException, msg_pix_failed),
        ex_world\<lparr>trace := [OrdersFindOneById ''o1'', TransactionFindUnique ''o1'',
                             AntifraudAnalyze ''o1'' ''PIX'', Logged ERROR]\<rparr>)
   \<and> processCreditCardPayment ex_env_denied ''o1'' (Some ''u1'') ex_dto ex_world
     = (Inl (InternalServerErrorException, msg_card_failed),
        ex_world\<lparr>trace := [OrdersFindOneById ''o1'', TransactionFindUnique ''o1'',
                             AntifraudAnalyze ''o1'' ''CREDIT_CARD'', Logged ERROR]\<rparr>)
   \<and> initiatePagSeguroRedirectCheckout ex_env_denied (Some ''u1'') ''o1'' ex_world
     = (Inl (InternalServerErrorException, msg_redirect_failed),
        ex_world\<lparr>trace := [OrdersFindOneById ''o1'', TransactionFindUnique ''o1'',
                             AntifraudAnalyze ''o1'' ''REDIRECT_CHECKOUT'', Logged ERROR]\<rparr>)
   \<and> (InternalServerErrorException, msg_pix_failed) \<noteq> (BadRequestException, msg_antifraud_denied)
   \<and> take 4 (new_events ex_world (snd (createPixCharge ex_env ''o1'' ''u1'' ex_world)))
     = [OrdersFindOneById ''o1'', TransactionFindUnique ''o1'', AntifraudAnalyze ''o1'' ''PIX'',
        GatewayCreatePixCharge ''o1'']"
proof -
  have found: "find (\<lambda>x. order_id x = ''o1'') (orders ex_world) = Some ex_order"
    by (simp add: ex_defs)
  have none: "find (\<lambda>t. tx_orderId t = Some ''o1'') (transactions ex_world) = None"
    by (simp add: ex_defs)
  have pending: "order_status ex_order = PENDING" by (simp add: ex_defs)
  have owner: "requester_matches ex_order (Some ''u1'')"
    by (simp add: requester_matches_def ex_defs)
  have dto: "truthy (cardToken ex_dto)" "truthy (cardHolderName ex_dto)" "truthy (cardCpf ex_dto)"
    by (simp_all add: ex_defs)
  have url: "backendUrl ex_env \<noteq> []"
    by (simp add: backendUrl_def or_else_def ex_defs)
  have tr: "trace ex_world = []" by (simp add: ex_defs)
  have d: "\<And>inp. antifraud_analyzeTransaction ex_env_denied inp = Inr ''DENIED''"
    by (simp add: ex_defs)
  have a: "\<And>inp. antifraud_analyzeTransaction ex_env inp = Inr ''APPROVED''"
    by (simp add: ex_defs)
  have svc_d: "ordersServiceError ex_env_denied ''o1'' = None" by (simp add: ex_defs)
  have rd_d: "prismaReadError ex_env_denied = None" by (simp add: ex_defs)
  have svc: "ordersServiceError ex_env ''o1'' = None" by (simp add: ex_defs)
  have rd: "prismaReadError ex_env = None" by (simp add: ex_defs)
  from antifraud_gate[OF svc_d found pending rd_d none d dto owner refl]
  have 1: "createPixCharge ex_env_denied ''o1'' ''u1'' ex_world
     = (Inl (InternalServerErrorException, msg_pix_failed),
        ex_world\<lparr>trace := [OrdersFindOneById ''o1'', TransactionFindUnique ''o1'',
                             AntifraudAnalyze ''o1'' ''PIX'', Logged ERROR]\<rparr>)"
    and 2: "processCreditCardPayment ex_env_denied ''o1'' (Some ''u1'') ex_dto ex_world
     = (Inl (InternalServerErrorException, msg_card_failed),
        ex_world\<lparr>trace := [OrdersFindOneById ''o1'', TransactionFindUnique ''o1'',
                             AntifraudAnalyze ''o1'' ''CREDIT_CARD'', Logged ERROR]\<rparr>)"
    and 3: "initiatePagSeguroRedirectCheckout ex_env_denied (Some ''u1'') ''o1'' ex_world
     = (Inl (InternalServerErrorException, msg_redirect_failed),
        ex_world\<lparr>trace := [OrdersFindOneById ''o1'', TransactionFindUnique ''o1'',
                             AntifraudAnalyze ''o1'' ''REDIRECT_CHECKOUT'', Logged ERROR]\<rparr>)"
    by (simp_all add: tr)
  from antifraud_gate[OF svc found pending rd none a dto owner refl] url
  have 4: "take 4 (new_events ex_world (snd (createPixCharge ex_env ''o1'' ''u1'' ex_world)))
     = [OrdersFindOneById ''o1'', TransactionFindUnique ''o1'', AntifraudAnalyze ''o1'' ''PIX'',
        GatewayCreatePixCharge ''o1'']"
    by simp
  show ?thesis using 1 2 3 4 by simp
qed





end
